theory Spec2Isabelle
  imports Main
begin

section \<open>JavaScript values\<close>

text \<open>
  The values that flow through \<^verbatim>\<open>src/tools/crossmint_embedded_wallet.ts\<close>: what
  \<^verbatim>\<open>response.json()\<close> can resolve with (a JSON value), \<^verbatim>\<open>undefined\<close> (the value of
  a property that is absent), the error objects that are thrown and caught, and the object
  literals the three functions return.

  A number is represented by its canonical decimal rendering, the string that
  \<^verbatim>\<open>String(n)\<close> gives (\<^verbatim>\<open>0\<close> for both zeros, \<^verbatim>\<open>NaN\<close>, \<^verbatim>\<open>Infinity\<close>, \<^verbatim>\<open>1e+21\<close>, ...): the
  code only tests numbers for truthiness and renders them into messages, and floating-point
  arithmetic is never performed. A string is a list of characters; the code only
  concatenates strings and tests them for an ASCII prefix. An object is the list of its own
  data properties in insertion order; a property read takes the first binding of the name.
\<close>

datatype js =
    JUndefined
  | JNull
  | JBool bool
  | JNum string
  | JStr string
  | JArr "js list"
  | JObj "(string \<times> js) list"

text \<open>
  How an evaluation ends: with a value, with a thrown value (for a promise: a rejection),
  or never (a promise that stays pending, so that the \<^verbatim>\<open>await\<close> on it never resumes).
\<close>

datatype 'a outcome = Value 'a | Thrown js | Never

fun nullish :: "js \<Rightarrow> bool" where
  "nullish JUndefined = True"
| "nullish JNull = True"
| "nullish _ = False"

text \<open>ToBoolean: what \<^verbatim>\<open>!x\<close> and \<^verbatim>\<open>x || y\<close> test.\<close>

fun truthy :: "js \<Rightarrow> bool" where
  "truthy JUndefined = False"
| "truthy JNull = False"
| "truthy (JBool b) = b"
| "truthy (JNum n) = (n \<noteq> ''0'' \<and> n \<noteq> ''NaN'')"
| "truthy (JStr s) = (s \<noteq> [])"
| "truthy (JArr _) = True"
| "truthy (JObj _) = True"

text \<open>\<^verbatim>\<open>new Error(message)\<close> with a string message: the object has the own property
  \<^verbatim>\<open>message\<close>; no \<^verbatim>\<open>code\<close> property is defined on it or on its prototypes. The
  \<^verbatim>\<open>stack\<close> and \<^verbatim>\<open>name\<close> of an error are never read by the code and are left out.\<close>

definition Error :: "string \<Rightarrow> js" where
  "Error msg = JObj [(''message'', JStr msg)]"

text \<open>The errors the engine itself throws. The wording is V8's (the code runs on Node.js);
  nothing below depends on it beyond its being a string.\<close>

definition TypeError_read :: "js \<Rightarrow> string \<Rightarrow> js" where
  "TypeError_read v name =
     Error (''Cannot read properties of ''
            @ (if v = JNull then ''null'' else ''undefined'')
            @ '' (reading '' @ [CHR 0x27] @ name @ [CHR 0x27] @ '')'')"

definition TypeError_primitive :: js where
  "TypeError_primitive = Error ''Cannot convert object to primitive value''"

text \<open>
  A property read \<^verbatim>\<open>v.name\<close>. Reading a property of \<^verbatim>\<open>null\<close> or \<^verbatim>\<open>undefined\<close> throws a
  TypeError. On an object the own property is returned, \<^verbatim>\<open>undefined\<close> when there is none.
  On a boolean, number, string or array the lookup goes to the built-in prototype; the
  names the code reads (\<^verbatim>\<open>message\<close>, \<^verbatim>\<open>code\<close>, \<^verbatim>\<open>walletId\<close>, \<^verbatim>\<open>address\<close>,
  \<^verbatim>\<open>wallets\<close>) are defined on none of the built-in prototypes, so the read gives
  \<^verbatim>\<open>undefined\<close>. The function is used for these five names, and for \<^verbatim>\<open>status\<close> on
  the objects that the three functions return.
\<close>

fun own_prop :: "js \<Rightarrow> string \<Rightarrow> js" where
  "own_prop (JObj kvs) name = (case map_of kvs name of None \<Rightarrow> JUndefined | Some v \<Rightarrow> v)"
| "own_prop _ name = JUndefined"

fun has_own :: "js \<Rightarrow> string \<Rightarrow> bool" where
  "has_own (JObj kvs) name = (name \<in> set (map fst kvs))"
| "has_own _ name = False"

definition get_prop :: "js \<Rightarrow> string \<Rightarrow> js outcome" where
  "get_prop v name = (if nullish v then Thrown (TypeError_read v name) else Value (own_prop v name))"

text \<open>
  ToString on a value that came out of \<^verbatim>\<open>JSON.parse\<close>, as \<^verbatim>\<open>new Error(x)\<close> applies it to
  its argument. An array is joined with commas, \<^verbatim>\<open>null\<close> and \<^verbatim>\<open>undefined\<close> elements
  rendering as the empty string. A plain object renders as \<^verbatim>\<open>[object Object]\<close> through
  \<^verbatim>\<open>Object.prototype.toString\<close>, unless an own property named \<^verbatim>\<open>toString\<close> shadows that
  method: a JSON value is never callable, \<^verbatim>\<open>valueOf\<close> then gives no primitive either, and
  the conversion throws a TypeError.
\<close>

fun ToString :: "js \<Rightarrow> string outcome"
  and join_elements :: "js list \<Rightarrow> string outcome" where
  "ToString JUndefined = Value ''undefined''"
| "ToString JNull = Value ''null''"
| "ToString (JBool b) = Value (if b then ''true'' else ''false'')"
| "ToString (JNum n) = Value n"
| "ToString (JStr s) = Value s"
| "ToString (JArr xs) = join_elements xs"
| "ToString (JObj kvs) =
     (if ''toString'' \<in> set (map fst kvs) then Thrown TypeError_primitive
      else Value ''[object Object]'')"
| "join_elements [] = Value []"
| "join_elements (x # xs) =
     (case (if nullish x then Value [] else ToString x) of
        Thrown e \<Rightarrow> Thrown e
      | Never \<Rightarrow> Never
      | Value s \<Rightarrow>
          (if xs = [] then Value s
           else (case join_elements xs of
                   Thrown e \<Rightarrow> Thrown e
                 | Never \<Rightarrow> Never
                 | Value t \<Rightarrow> Value (s @ '','' @ t))))"

text \<open>\<^verbatim>\<open>new Error(x)\<close> for an argument that is not \<^verbatim>\<open>undefined\<close>: the message is
  ToString of the argument, and a failing conversion throws instead.\<close>

definition new_Error :: "js \<Rightarrow> js outcome" where
  "new_Error x = (case ToString x of
                    Thrown e \<Rightarrow> Thrown e
                  | Never \<Rightarrow> Never
                  | Value s \<Rightarrow> Value (Error s))"

text \<open>\<^verbatim>\<open>s.startsWith(p)\<close>.\<close>

definition startsWith :: "string \<Rightarrow> string \<Rightarrow> bool" where
  "startsWith s p = (take (length p) s = p)"

text \<open>A status code rendered by the template literal \<^verbatim>\<open>${response.status}\<close>: the decimal
  digits of a non-negative integer.\<close>

definition digit :: "nat \<Rightarrow> char" where
  "digit d = ''0123456789'' ! d"

fun decimal :: "nat \<Rightarrow> string" where
  "decimal n = (if n < 10 then [digit n] else decimal (n div 10) @ [digit (n mod 10)])"

declare decimal.simps [simp del]

section \<open>The fetch interface\<close>

text \<open>
  \<^verbatim>\<open>fetch\<close> belongs to the platform, not to the repository: it is a parameter of the
  model. A call is described by the request the code builds; the body of the POST is kept as
  the object handed to \<^verbatim>\<open>JSON.stringify\<close>. The promise that \<^verbatim>\<open>fetch\<close> returns is
  fulfilled with a response, rejected, or stays pending. Of a response the code reads
  \<^verbatim>\<open>status\<close>, \<^verbatim>\<open>ok\<close> and, once, the promise of \<^verbatim>\<open>json()\<close>. By the Fetch standard
  \<^verbatim>\<open>ok\<close> is true exactly for a status from 200 to 299.
\<close>

record Request =
  url :: string
  method' :: string
  headers :: "(string \<times> string) list"
  body :: "js option"

record Response =
  status :: nat
  json :: "js outcome"

definition ok :: "Response \<Rightarrow> bool" where
  "ok response = (200 \<le> status response \<and> status response \<le> 299)"

type_synonym fetch = "Request \<Rightarrow> Response outcome"

section \<open>The three operations\<close>

text \<open>Sequencing: \<^verbatim>\<open>await\<close> on a promise, or the next statement after one that may throw.
  A thrown value and a promise that never settles both end the rest of the block.\<close>

definition and_then :: "'a outcome \<Rightarrow> ('a \<Rightarrow> 'b outcome) \<Rightarrow> 'b outcome" where
  "and_then x f = (case x of Value v \<Rightarrow> f v | Thrown e \<Rightarrow> Thrown e | Never \<Rightarrow> Never)"

text \<open>
  The block that each of the three functions runs on the response:
  \<^verbatim>\<open>if (!response.ok) { const errorData = await response.json();
       throw new Error(errorData.message || `HTTP error! status: ${response.status}`); }\<close>
\<close>

definition throw_unless_ok :: "Response \<Rightarrow> unit outcome" where
  "throw_unless_ok response =
     (if \<not> ok response then
        and_then (json response) (\<lambda>errorData.
        and_then (get_prop errorData ''message'') (\<lambda>message.
        and_then (new_Error (if truthy message then message
                             else JStr (''HTTP error! status: '' @ decimal (status response))))
          (\<lambda>error. Thrown error)))
      else Value ())"

text \<open>
  The \<^verbatim>\<open>catch (error: any)\<close> block, which differs between the three functions in the
  default code only:
  \<^verbatim>\<open>return { status: "error", message: error.message, code: error.code || DEFAULT };\<close>
  The block is not itself guarded: what it throws leaves the function.
\<close>

definition catch_error :: "string \<Rightarrow> js \<Rightarrow> js outcome" where
  "catch_error default_code error =
     and_then (get_prop error ''message'') (\<lambda>message.
     and_then (get_prop error ''code'') (\<lambda>code.
     Value (JObj [(''status'', JStr ''error''),
                  (''message'', message),
                  (''code'', if truthy code then code else JStr default_code)])))"

definition try_catch :: "js outcome \<Rightarrow> (js \<Rightarrow> js outcome) \<Rightarrow> js outcome" where
  "try_catch block handler =
     (case block of Value v \<Rightarrow> Value v | Thrown error \<Rightarrow> handler error | Never \<Rightarrow> Never)"

text \<open>
  Each operation is given as its \<^verbatim>\<open>try\<close> block and the function around it. The result
  is paired with the requests handed to \<^verbatim>\<open>fetch\<close>, in order. The \<^verbatim>\<open>agent\<close> argument
  is not used by any of the three functions.
\<close>

definition createCrossmintWallet_try :: "fetch \<Rightarrow> string \<Rightarrow> string \<Rightarrow> js outcome \<times> Request list" where
  "createCrossmintWallet_try fetch linkedUser apiKey =
     (if \<not> startsWith linkedUser ''email:'' \<and> \<not> startsWith linkedUser ''id:'' then
        (Thrown (Error ''linkedUser must start with 'email:' or 'id:' followed by the identifier''),
         [])
      else if apiKey = [] \<or> \<not> startsWith apiKey ''sk_'' then
        (Thrown (Error ''Invalid Crossmint API key format''), [])
      else
        (let request = \<lparr>url = ''https://staging.crossmint.com/api/v1-alpha2/wallets'',
                        method' = ''POST'',
                        headers = [(''X-API-KEY'', apiKey), (''Content-Type'', ''application/json'')],
                        body = Some (JObj [(''type'', JStr ''solana-mpc-wallet''),
                                           (''linkedUser'', JStr linkedUser)])\<rparr>
         in (and_then (fetch request) (\<lambda>response.
             and_then (throw_unless_ok response) (\<lambda>_.
             and_then (json response) (\<lambda>data.
             and_then (get_prop data ''walletId'') (\<lambda>walletId.
             and_then (get_prop data ''address'') (\<lambda>address.
             Value (JObj [(''status'', JStr ''success''),
                          (''walletId'', walletId),
                          (''address'', address)])))))),
             [request])))"

definition createCrossmintWallet :: "fetch \<Rightarrow> 'agent \<Rightarrow> string \<Rightarrow> string \<Rightarrow> js outcome \<times> Request list" where
  "createCrossmintWallet fetch agent linkedUser apiKey =
     (case createCrossmintWallet_try fetch linkedUser apiKey of
        (block, sent) \<Rightarrow> (try_catch block (catch_error ''WALLET_CREATION_ERROR''), sent))"

definition getCrossmintWallet_try :: "fetch \<Rightarrow> string \<Rightarrow> string \<Rightarrow> js outcome \<times> Request list" where
  "getCrossmintWallet_try fetch walletId apiKey =
     (let request = \<lparr>url = ''https://staging.crossmint.com/api/v1-alpha2/wallets/'' @ walletId,
                     method' = ''GET'',
                     headers = [(''X-API-KEY'', apiKey), (''Content-Type'', ''application/json'')],
                     body = None\<rparr>
      in (and_then (fetch request) (\<lambda>response.
          and_then (throw_unless_ok response) (\<lambda>_.
          and_then (json response) (\<lambda>data.
          and_then (get_prop data ''walletId'') (\<lambda>walletId.
          and_then (get_prop data ''address'') (\<lambda>address.
          Value (JObj [(''status'', JStr ''success''),
                       (''walletId'', walletId),
                       (''address'', address)])))))),
          [request]))"

definition getCrossmintWallet :: "fetch \<Rightarrow> 'agent \<Rightarrow> string \<Rightarrow> string \<Rightarrow> js outcome \<times> Request list" where
  "getCrossmintWallet fetch agent walletId apiKey =
     (case getCrossmintWallet_try fetch walletId apiKey of
        (block, sent) \<Rightarrow> (try_catch block (catch_error ''WALLET_FETCH_ERROR''), sent))"

definition listCrossmintWallets_try :: "fetch \<Rightarrow> string \<Rightarrow> js outcome \<times> Request list" where
  "listCrossmintWallets_try fetch apiKey =
     (let request = \<lparr>url = ''https://staging.crossmint.com/api/v1-alpha2/wallets'',
                     method' = ''GET'',
                     headers = [(''X-API-KEY'', apiKey), (''Content-Type'', ''application/json'')],
                     body = None\<rparr>
      in (and_then (fetch request) (\<lambda>response.
          and_then (throw_unless_ok response) (\<lambda>_.
          and_then (json response) (\<lambda>data.
          and_then (get_prop data ''wallets'') (\<lambda>wallets.
          Value (JObj [(''status'', JStr ''success''),
                       (''wallets'', wallets)]))))),
          [request]))"

definition listCrossmintWallets :: "fetch \<Rightarrow> 'agent \<Rightarrow> string \<Rightarrow> js outcome \<times> Request list" where
  "listCrossmintWallets fetch agent apiKey =
     (case listCrossmintWallets_try fetch apiKey of
        (block, sent) \<Rightarrow> (try_catch block (catch_error ''WALLET_LIST_ERROR''), sent))"

text \<open>Mocked fetches: the same settled promise for every request.\<close>

definition fetch_fulfilled :: "nat \<Rightarrow> js outcome \<Rightarrow> fetch" where
  "fetch_fulfilled code parsed request = Value \<lparr>status = code, json = parsed\<rparr>"

definition fetch_rejected :: "js \<Rightarrow> fetch" where
  "fetch_rejected error request = Thrown error"

text \<open>When an outcome is a value, or a thrown value other than \<^verbatim>\<open>null\<close> and
  \<^verbatim>\<open>undefined\<close>: what a promise of the platform does when it settles, since a network
  failure and a JSON parse failure are error objects (TypeError, SyntaxError,
  DOMException).\<close>

definition settles :: "'a outcome \<Rightarrow> bool" where
  "settles x = (case x of Value v \<Rightarrow> True | Thrown e \<Rightarrow> \<not> nullish e | Never \<Rightarrow> False)"

text \<open>The two shapes of a result: a success without \<^verbatim>\<open>message\<close> and \<^verbatim>\<open>code\<close>, an error
  without \<^verbatim>\<open>walletId\<close>, \<^verbatim>\<open>address\<close> and \<^verbatim>\<open>wallets\<close>.\<close>

definition well_shaped :: "js \<Rightarrow> bool" where
  "well_shaped r =
     ((own_prop r ''status'' = JStr ''success''
         \<and> \<not> has_own r ''message'' \<and> \<not> has_own r ''code'')
      \<or> (own_prop r ''status'' = JStr ''error''
         \<and> \<not> has_own r ''walletId'' \<and> \<not> has_own r ''address'' \<and> \<not> has_own r ''wallets''))"

section \<open>Basic facts\<close>

lemma and_then_simps:
  "and_then (Value v) f = f v"
  "and_then (Thrown e) f = Thrown e"
  "and_then Never f = Never"
  by (simp_all add: and_then_def)

lemma try_catch_simps:
  "try_catch (Value v) h = Value v"
  "try_catch (Thrown e) h = h e"
  "try_catch Never h = Never"
  by (simp_all add: try_catch_def)

lemma get_prop_simps:
  "nullish v \<Longrightarrow> get_prop v name = Thrown (TypeError_read v name)"
  "\<not> nullish v \<Longrightarrow> get_prop v name = Value (own_prop v name)"
  by (simp_all add: get_prop_def)

lemma not_nullish_Error: "\<not> nullish (Error s)"
  by (simp add: Error_def)

lemma own_prop_Error:
  "own_prop (Error s) ''message'' = JStr s"
  "own_prop (Error s) ''code'' = JUndefined"
  by (simp_all add: Error_def)

lemma catch_error_not_nullish:
  "\<not> nullish e \<Longrightarrow> catch_error d e =
     Value (JObj [(''status'', JStr ''error''),
                  (''message'', own_prop e ''message''),
                  (''code'', if truthy (own_prop e ''code'') then own_prop e ''code'' else JStr d)])"
  by (simp add: catch_error_def get_prop_simps and_then_simps)

lemma catch_error_Error:
  "catch_error d (Error s) =
     Value (JObj [(''status'', JStr ''error''), (''message'', JStr s), (''code'', JStr d)])"
  by (simp add: catch_error_not_nullish not_nullish_Error own_prop_Error)

lemma throw_unless_ok_ok: "ok response \<Longrightarrow> throw_unless_ok response = Value ()"
  by (simp add: throw_unless_ok_def)

text \<open>What a sent request tells about \<^verbatim>\<open>createCrossmintWallet\<close>: both validations
  passed, and the request is the POST that the function builds.\<close>

lemma create_sent_valid:
  assumes "snd (createCrossmintWallet fetch agent linkedUser apiKey) = [request]"
  shows "(startsWith linkedUser ''email:'' \<or> startsWith linkedUser ''id:'')
         \<and> apiKey \<noteq> [] \<and> startsWith apiKey ''sk_''"
  using assms
  by (auto simp add: createCrossmintWallet_def createCrossmintWallet_try_def Let_def
           split: if_splits prod.splits)

lemma create_sent_request:
  assumes "snd (createCrossmintWallet fetch agent linkedUser apiKey) = [request]"
  shows "request = \<lparr>url = ''https://staging.crossmint.com/api/v1-alpha2/wallets'',
                    method' = ''POST'',
                    headers = [(''X-API-KEY'', apiKey), (''Content-Type'', ''application/json'')],
                    body = Some (JObj [(''type'', JStr ''solana-mpc-wallet''),
                                       (''linkedUser'', JStr linkedUser)])\<rparr>"
  using assms
  by (auto simp add: createCrossmintWallet_def createCrossmintWallet_try_def Let_def
           split: if_splits prod.splits)

section \<open>Validation in createCrossmintWallet\<close>

text \<open>
  Claim C2. For every \<^verbatim>\<open>linkedUser\<close> that starts with neither \<^verbatim>\<open>email:\<close> nor \<^verbatim>\<open>id:\<close>,
  every \<^verbatim>\<open>apiKey\<close> and every behaviour of \<^verbatim>\<open>fetch\<close>, \<^verbatim>\<open>createCrossmintWallet\<close> returns
  the error result whose message is exactly
  \<^verbatim>\<open>linkedUser must start with 'email:' or 'id:' followed by the identifier\<close> (with the code
  \<^verbatim>\<open>WALLET_CREATION_ERROR\<close>), and \<^verbatim>\<open>fetch\<close> is never called: the list of sent requests is
  empty.
\<close>

theorem create_rejects_linkedUser:
  assumes "\<not> startsWith linkedUser ''email:''" and "\<not> startsWith linkedUser ''id:''"
  shows "createCrossmintWallet fetch agent linkedUser apiKey =
           (Value (JObj [(''status'', JStr ''error''),
                         (''message'', JStr ''linkedUser must start with 'email:' or 'id:' followed by the identifier''),
                         (''code'', JStr ''WALLET_CREATION_ERROR'')]),
            [])"
  using assms
  by (simp add: createCrossmintWallet_def createCrossmintWallet_try_def try_catch_simps
                catch_error_Error)

theorem create_rejects_linkedUser_witness:
  "\<not> startsWith ''bob@example.com'' ''email:'' \<and> \<not> startsWith ''bob@example.com'' ''id:''
   \<and> createCrossmintWallet (fetch_fulfilled 200 (Value (JObj []))) () ''bob@example.com'' ''sk_test'' =
        (Value (JObj [(''status'', JStr ''error''),
                      (''message'', JStr ''linkedUser must start with 'email:' or 'id:' followed by the identifier''),
                      (''code'', JStr ''WALLET_CREATION_ERROR'')]),
         [])"
proof -
  have a: "\<not> startsWith ''bob@example.com'' ''email:''" by (simp add: startsWith_def)
  have b: "\<not> startsWith ''bob@example.com'' ''id:''" by (simp add: startsWith_def)
  show ?thesis
    using a b create_rejects_linkedUser [OF a b, of "fetch_fulfilled 200 (Value (JObj []))" "()" "''sk_test''"]
    by simp
qed

text \<open>
  Claim C3, as the code has it. For every \<^verbatim>\<open>linkedUser\<close> that starts with \<^verbatim>\<open>email:\<close> or
  \<^verbatim>\<open>id:\<close> and every \<^verbatim>\<open>apiKey\<close> that is empty or does not start with \<^verbatim>\<open>sk_\<close>,
  \<^verbatim>\<open>createCrossmintWallet\<close> returns the error result whose message is exactly
  \<^verbatim>\<open>Invalid Crossmint API key format\<close>, and \<^verbatim>\<open>fetch\<close> is never called. The message is not
  \<^verbatim>\<open>Invalid API key format\<close>: the counterexample evaluates the function at the empty key.
\<close>

theorem create_rejects_apiKey:
  assumes "startsWith linkedUser ''email:'' \<or> startsWith linkedUser ''id:''"
      and "apiKey = [] \<or> \<not> startsWith apiKey ''sk_''"
  shows "createCrossmintWallet fetch agent linkedUser apiKey =
           (Value (JObj [(''status'', JStr ''error''),
                         (''message'', JStr ''Invalid Crossmint API key format''),
                         (''code'', JStr ''WALLET_CREATION_ERROR'')]),
            [])"
  using assms
  by (auto simp add: createCrossmintWallet_def createCrossmintWallet_try_def try_catch_simps
                     catch_error_Error)

theorem create_rejects_apiKey_witness:
  "(startsWith ''id:42'' ''email:'' \<or> startsWith ''id:42'' ''id:'')
   \<and> (''pk_live'' = [] \<or> \<not> startsWith ''pk_live'' ''sk_'')
   \<and> createCrossmintWallet (fetch_fulfilled 200 (Value (JObj []))) () ''id:42'' ''pk_live'' =
        (Value (JObj [(''status'', JStr ''error''),
                      (''message'', JStr ''Invalid Crossmint API key format''),
                      (''code'', JStr ''WALLET_CREATION_ERROR'')]),
         [])"
proof -
  have a: "startsWith ''id:42'' ''email:'' \<or> startsWith ''id:42'' ''id:''"
    by (simp add: startsWith_def)
  have b: "''pk_live'' = [] \<or> \<not> startsWith ''pk_live'' ''sk_''"
    by (simp add: startsWith_def)
  show ?thesis
    using a b create_rejects_apiKey [OF a b, of "fetch_fulfilled 200 (Value (JObj []))" "()"]
    by simp
qed

theorem create_apiKey_message_counterexample:
  "createCrossmintWallet (fetch_fulfilled 200 (Value (JObj []))) () ''email:a@b.com'' [] =
     (Value (JObj [(''status'', JStr ''error''),
                   (''message'', JStr ''Invalid Crossmint API key format''),
                   (''code'', JStr ''WALLET_CREATION_ERROR'')]),
      [])
   \<and> JStr ''Invalid Crossmint API key format'' \<noteq> JStr ''Invalid API key format''"
  by (simp add: createCrossmintWallet_def createCrossmintWallet_try_def try_catch_simps
                catch_error_Error startsWith_def)

section \<open>The request and the response\<close>

lemma fst_create:
  "fst (createCrossmintWallet fetch agent linkedUser apiKey) =
     try_catch (fst (createCrossmintWallet_try fetch linkedUser apiKey))
               (catch_error ''WALLET_CREATION_ERROR'')"
  by (simp add: createCrossmintWallet_def split: prod.splits)

lemma fst_get:
  "fst (getCrossmintWallet fetch agent walletId apiKey) =
     try_catch (fst (getCrossmintWallet_try fetch walletId apiKey))
               (catch_error ''WALLET_FETCH_ERROR'')"
  by (simp add: getCrossmintWallet_def split: prod.splits)

lemma fst_list:
  "fst (listCrossmintWallets fetch agent apiKey) =
     try_catch (fst (listCrossmintWallets_try fetch apiKey))
               (catch_error ''WALLET_LIST_ERROR'')"
  by (simp add: listCrossmintWallets_def split: prod.splits)

lemma get_sent:
  "snd (getCrossmintWallet fetch agent walletId apiKey) =
     [\<lparr>url = ''https://staging.crossmint.com/api/v1-alpha2/wallets/'' @ walletId,
       method' = ''GET'',
       headers = [(''X-API-KEY'', apiKey), (''Content-Type'', ''application/json'')],
       body = None\<rparr>]"
  by (simp add: getCrossmintWallet_def getCrossmintWallet_try_def Let_def split: prod.splits)

lemma list_sent:
  "snd (listCrossmintWallets fetch agent apiKey) =
     [\<lparr>url = ''https://staging.crossmint.com/api/v1-alpha2/wallets'',
       method' = ''GET'',
       headers = [(''X-API-KEY'', apiKey), (''Content-Type'', ''application/json'')],
       body = None\<rparr>]"
  by (simp add: listCrossmintWallets_def listCrossmintWallets_try_def Let_def split: prod.splits)

text \<open>The three functions once the request is known to have been answered.\<close>

lemma create_answered:
  assumes "snd (createCrossmintWallet fetch agent linkedUser apiKey) = [request]"
      and "fetch request = Value response"
  shows "fst (createCrossmintWallet fetch agent linkedUser apiKey) =
           try_catch
             (and_then (throw_unless_ok response) (\<lambda>_.
              and_then (json response) (\<lambda>data.
              and_then (get_prop data ''walletId'') (\<lambda>walletId.
              and_then (get_prop data ''address'') (\<lambda>address.
              Value (JObj [(''status'', JStr ''success''),
                           (''walletId'', walletId),
                           (''address'', address)]))))))
             (catch_error ''WALLET_CREATION_ERROR'')"
  using create_sent_valid [OF assms(1)] create_sent_request [OF assms(1)] assms(2)
  by (auto simp add: createCrossmintWallet_def createCrossmintWallet_try_def Let_def and_then_simps)

lemma get_answered:
  assumes "snd (getCrossmintWallet fetch agent walletId apiKey) = [request]"
      and "fetch request = Value response"
  shows "fst (getCrossmintWallet fetch agent walletId apiKey) =
           try_catch
             (and_then (throw_unless_ok response) (\<lambda>_.
              and_then (json response) (\<lambda>data.
              and_then (get_prop data ''walletId'') (\<lambda>walletId.
              and_then (get_prop data ''address'') (\<lambda>address.
              Value (JObj [(''status'', JStr ''success''),
                           (''walletId'', walletId),
                           (''address'', address)]))))))
             (catch_error ''WALLET_FETCH_ERROR'')"
  using assms
  by (auto simp add: getCrossmintWallet_def getCrossmintWallet_try_def Let_def and_then_simps)

lemma list_answered:
  assumes "snd (listCrossmintWallets fetch agent apiKey) = [request]"
      and "fetch request = Value response"
  shows "fst (listCrossmintWallets fetch agent apiKey) =
           try_catch
             (and_then (throw_unless_ok response) (\<lambda>_.
              and_then (json response) (\<lambda>data.
              and_then (get_prop data ''wallets'') (\<lambda>wallets.
              Value (JObj [(''status'', JStr ''success''),
                           (''wallets'', wallets)])))))
             (catch_error ''WALLET_LIST_ERROR'')"
  using assms
  by (auto simp add: listCrossmintWallets_def listCrossmintWallets_try_def Let_def and_then_simps)

lemma get_by_outcome:
  "fst (getCrossmintWallet fetch agent walletId apiKey) =
     try_catch
       (and_then (fetch (hd (snd (getCrossmintWallet fetch agent walletId apiKey)))) (\<lambda>response.
        and_then (throw_unless_ok response) (\<lambda>_.
        and_then (json response) (\<lambda>data.
        and_then (get_prop data ''walletId'') (\<lambda>walletId.
        and_then (get_prop data ''address'') (\<lambda>address.
        Value (JObj [(''status'', JStr ''success''),
                     (''walletId'', walletId),
                     (''address'', address)])))))))
       (catch_error ''WALLET_FETCH_ERROR'')"
  unfolding get_sent by (simp add: fst_get getCrossmintWallet_try_def Let_def)

text \<open>The block on a response that is not ok, by what \<^verbatim>\<open>json()\<close> gives.\<close>

lemma throw_unless_ok_message:
  assumes "\<not> ok response" and "json response = Value errorData" and "\<not> nullish errorData"
      and "truthy (own_prop errorData ''message'')"
      and "ToString (own_prop errorData ''message'') = Value s"
  shows "throw_unless_ok response = Thrown (Error s)"
  using assms
  by (simp add: throw_unless_ok_def and_then_simps get_prop_simps new_Error_def)

lemma throw_unless_ok_status:
  assumes "\<not> ok response" and "json response = Value errorData" and "\<not> nullish errorData"
      and "\<not> truthy (own_prop errorData ''message'')"
  shows "throw_unless_ok response =
           Thrown (Error (''HTTP error! status: '' @ decimal (status response)))"
  using assms
  by (simp add: throw_unless_ok_def and_then_simps get_prop_simps new_Error_def)

lemma throw_unless_ok_json_thrown:
  assumes "\<not> ok response" and "json response = Thrown e"
  shows "throw_unless_ok response = Thrown e"
  using assms
  by (simp add: throw_unless_ok_def and_then_simps)

lemma own_prop_absent: "\<not> has_own v name \<Longrightarrow> own_prop v name = JUndefined"
  by (cases v) (simp_all add: map_of_eq_None_iff [THEN iffD2])

lemma decimal_500: "decimal 500 = ''500''"
  by (simp add: decimal.simps digit_def)

section \<open>Settled outcomes and string conversion\<close>

lemma settles_simps:
  "settles (Value v)"
  "settles (Thrown e) = (\<not> nullish e)"
  "\<not> settles Never"
  by (simp_all add: settles_def)

lemma ToString_cases:
  "(\<exists>s. ToString x = Value s) \<or> ToString x = Thrown TypeError_primitive"
  and join_elements_cases:
  "(\<exists>s. join_elements xs = Value s) \<or> join_elements xs = Thrown TypeError_primitive"
  by (induction x and xs rule: ToString_join_elements.induct) (auto split: if_splits)

section \<open>The shape of a returned value\<close>

lemma and_then_Value:
  assumes "and_then x f = Value r"
  obtains v where "x = Value v" and "f v = Value r"
  using assms by (cases x) (simp_all add: and_then_simps)

lemma wallet_block_Value:
  assumes "and_then x (\<lambda>response.
             and_then (throw_unless_ok response) (\<lambda>_.
             and_then (json response) (\<lambda>data.
             and_then (get_prop data ''walletId'') (\<lambda>walletId.
             and_then (get_prop data ''address'') (\<lambda>address.
             Value (JObj [(''status'', JStr ''success''),
                          (''walletId'', walletId),
                          (''address'', address)])))))) = Value r"
  shows "well_shaped r"
  using assms
  by (auto elim!: and_then_Value simp add: well_shaped_def)

lemma wallets_block_Value:
  assumes "and_then x (\<lambda>response.
             and_then (throw_unless_ok response) (\<lambda>_.
             and_then (json response) (\<lambda>data.
             and_then (get_prop data ''wallets'') (\<lambda>wallets.
             Value (JObj [(''status'', JStr ''success''),
                          (''wallets'', wallets)]))))) = Value r"
  shows "well_shaped r"
  using assms
  by (auto elim!: and_then_Value simp add: well_shaped_def)

lemma catch_error_Value:
  assumes "catch_error d e = Value r"
  shows "well_shaped r"
  using assms
  by (auto elim!: and_then_Value simp add: catch_error_def well_shaped_def)

lemma try_catch_Value:
  assumes "try_catch block (catch_error d) = Value r"
      and "block = Value r \<Longrightarrow> well_shaped r"
  shows "well_shaped r"
  using assms
  by (cases block) (auto simp add: try_catch_simps catch_error_Value)

lemma create_try_Value:
  "fst (createCrossmintWallet_try fetch linkedUser apiKey) = Value r \<Longrightarrow> well_shaped r"
  by (auto simp add: createCrossmintWallet_try_def Let_def wallet_block_Value split: if_splits)

lemma get_try_Value:
  "fst (getCrossmintWallet_try fetch walletId apiKey) = Value r \<Longrightarrow> well_shaped r"
  by (auto simp add: getCrossmintWallet_try_def Let_def wallet_block_Value)

lemma list_try_Value:
  "fst (listCrossmintWallets_try fetch apiKey) = Value r \<Longrightarrow> well_shaped r"
  by (auto simp add: listCrossmintWallets_try_def Let_def wallets_block_Value)

text \<open>Unfolding the model on a concrete input.\<close>

lemmas run =
  createCrossmintWallet_def createCrossmintWallet_try_def
  getCrossmintWallet_def getCrossmintWallet_try_def
  listCrossmintWallets_def listCrossmintWallets_try_def
  and_then_def try_catch_def throw_unless_ok_def catch_error_def get_prop_def new_Error_def
  Error_def TypeError_read_def TypeError_primitive_def ok_def startsWith_def
  fetch_fulfilled_def fetch_rejected_def settles_def well_shaped_def Let_def
  decimal.simps digit_def

section \<open>The result by the outcome of the request\<close>

lemma catch_error_nullish:
  "nullish e \<Longrightarrow> catch_error d e = Thrown (TypeError_read e ''message'')"
  by (simp add: catch_error_def get_prop_simps and_then_simps)

lemma catch_error_cases:
  "catch_error d e =
     (if nullish e then Thrown (TypeError_read e ''message'')
      else Value (JObj [(''status'', JStr ''error''),
                        (''message'', own_prop e ''message''),
                        (''code'', if truthy (own_prop e ''code'') then own_prop e ''code''
                                  else JStr d)]))"
  by (simp add: catch_error_nullish catch_error_not_nullish)

text \<open>What the block on a response that is not ok throws, once the body has parsed.\<close>

lemma throw_unless_ok_parsed:
  assumes "\<not> ok response" and "json response = Value errorData"
  shows "\<exists>s. throw_unless_ok response = Thrown (Error s)
           \<and> JStr s =
               (if nullish errorData then own_prop (TypeError_read errorData ''message'') ''message''
                else if truthy (own_prop errorData ''message'') then
                  (case ToString (own_prop errorData ''message'') of
                     Value s \<Rightarrow> JStr s
                   | Thrown e \<Rightarrow> own_prop e ''message''
                   | Never \<Rightarrow> JUndefined)
                else JStr (''HTTP error! status: '' @ decimal (status response)))"
proof (cases "nullish errorData")
  case True
  then show ?thesis
    using assms
    by (simp add: throw_unless_ok_def and_then_simps get_prop_simps TypeError_read_def own_prop_Error)
next
  case object: False
  show ?thesis
  proof (cases "truthy (own_prop errorData ''message'')")
    case False
    then show ?thesis
      using throw_unless_ok_status [OF assms object] object by simp
  next
    case True
    from ToString_cases [of "own_prop errorData ''message''"]
    show ?thesis
    proof
      assume "\<exists>s. ToString (own_prop errorData ''message'') = Value s"
      then obtain s where s: "ToString (own_prop errorData ''message'') = Value s" ..
      then show ?thesis
        using throw_unless_ok_message [OF assms object True s] object True by simp
    next
      assume "ToString (own_prop errorData ''message'') = Thrown TypeError_primitive"
      then show ?thesis
        using assms object True
        by (simp add: throw_unless_ok_def and_then_simps get_prop_simps new_Error_def
                      TypeError_primitive_def own_prop_Error)
    qed
  qed
qed

lemma block_not_ok:
  assumes "\<not> ok response" and "json response = Value errorData"
  shows "try_catch (and_then (throw_unless_ok response) K) (catch_error d) =
           Value (JObj [(''status'', JStr ''error''),
                        (''message'',
                           if nullish errorData
                           then own_prop (TypeError_read errorData ''message'') ''message''
                           else if truthy (own_prop errorData ''message'') then
                             (case ToString (own_prop errorData ''message'') of
                                Value s \<Rightarrow> JStr s
                              | Thrown e \<Rightarrow> own_prop e ''message''
                              | Never \<Rightarrow> JUndefined)
                           else JStr (''HTTP error! status: '' @ decimal (status response))),
                        (''code'', JStr d)])"
proof -
  from throw_unless_ok_parsed [OF assms] obtain s where
    "throw_unless_ok response = Thrown (Error s)" and
    "JStr s =
       (if nullish errorData then own_prop (TypeError_read errorData ''message'') ''message''
        else if truthy (own_prop errorData ''message'') then
          (case ToString (own_prop errorData ''message'') of
             Value s \<Rightarrow> JStr s
           | Thrown e \<Rightarrow> own_prop e ''message''
           | Never \<Rightarrow> JUndefined)
        else JStr (''HTTP error! status: '' @ decimal (status response)))"
    by blast
  then show ?thesis
    by (simp only: and_then_simps try_catch_simps catch_error_Error)
qed

lemma block_json_thrown:
  assumes "json response = Thrown e"
  shows "and_then (throw_unless_ok response) (\<lambda>_. and_then (json response) K) = Thrown e"
  using assms
  by (cases "ok response") (simp_all add: throw_unless_ok_def and_then_simps)

lemma block_json_never:
  assumes "json response = Never"
  shows "and_then (throw_unless_ok response) (\<lambda>_. and_then (json response) K) = Never"
  using assms
  by (cases "ok response") (simp_all add: throw_unless_ok_def and_then_simps)

lemma block_ok_null:
  assumes "ok response" and "json response = Value data" and "nullish data"
  shows "try_catch
           (and_then (throw_unless_ok response) (\<lambda>_.
            and_then (json response) (\<lambda>data.
            and_then (get_prop data p) (K data))))
           (catch_error d) =
         Value (JObj [(''status'', JStr ''error''),
                      (''message'', own_prop (TypeError_read data p) ''message''),
                      (''code'', JStr d)])"
  using assms
  by (simp add: throw_unless_ok_ok and_then_simps try_catch_simps get_prop_simps
                TypeError_read_def catch_error_Error own_prop_Error)

lemma block_ok_parsed:
  assumes "ok response" and "json response = Value data" and "\<not> nullish data"
  shows "and_then (throw_unless_ok response) (\<lambda>_.
         and_then (json response) (\<lambda>data.
         and_then (get_prop data p) (K data))) = K data (own_prop data p)"
  using assms
  by (simp add: throw_unless_ok_ok and_then_simps get_prop_simps)

text \<open>The three functions by the request they send.\<close>

lemma create_by_request:
  assumes "snd (createCrossmintWallet fetch agent linkedUser apiKey) = [request]"
  shows "fst (createCrossmintWallet fetch agent linkedUser apiKey) =
           try_catch
             (and_then (fetch request) (\<lambda>response.
              and_then (throw_unless_ok response) (\<lambda>_.
              and_then (json response) (\<lambda>data.
              and_then (get_prop data ''walletId'') (\<lambda>walletId.
              and_then (get_prop data ''address'') (\<lambda>address.
              Value (JObj [(''status'', JStr ''success''),
                           (''walletId'', walletId),
                           (''address'', address)])))))))
             (catch_error ''WALLET_CREATION_ERROR'')"
  using create_sent_valid [OF assms] create_sent_request [OF assms]
  by (auto simp add: createCrossmintWallet_def createCrossmintWallet_try_def Let_def)

lemma get_by_request:
  assumes "snd (getCrossmintWallet fetch agent walletId apiKey) = [request]"
  shows "fst (getCrossmintWallet fetch agent walletId apiKey) =
           try_catch
             (and_then (fetch request) (\<lambda>response.
              and_then (throw_unless_ok response) (\<lambda>_.
              and_then (json response) (\<lambda>data.
              and_then (get_prop data ''walletId'') (\<lambda>walletId.
              and_then (get_prop data ''address'') (\<lambda>address.
              Value (JObj [(''status'', JStr ''success''),
                           (''walletId'', walletId),
                           (''address'', address)])))))))
             (catch_error ''WALLET_FETCH_ERROR'')"
  using assms
  by (auto simp add: getCrossmintWallet_def getCrossmintWallet_try_def Let_def)

lemma list_by_request:
  assumes "snd (listCrossmintWallets fetch agent apiKey) = [request]"
  shows "fst (listCrossmintWallets fetch agent apiKey) =
           try_catch
             (and_then (fetch request) (\<lambda>response.
              and_then (throw_unless_ok response) (\<lambda>_.
              and_then (json response) (\<lambda>data.
              and_then (get_prop data ''wallets'') (\<lambda>wallets.
              Value (JObj [(''status'', JStr ''success''),
                           (''wallets'', wallets)]))))))
             (catch_error ''WALLET_LIST_ERROR'')"
  using assms
  by (auto simp add: listCrossmintWallets_def listCrossmintWallets_try_def Let_def)

lemma create_sent_length: "length (snd (createCrossmintWallet fetch agent linkedUser apiKey)) \<le> 1"
  by (simp add: createCrossmintWallet_def createCrossmintWallet_try_def Let_def split: prod.splits)

lemma create_not_sent:
  assumes "snd (createCrossmintWallet fetch agent linkedUser apiKey) = []"
  shows "\<exists>s. fst (createCrossmintWallet fetch agent linkedUser apiKey) =
           Value (JObj [(''status'', JStr ''error''),
                        (''message'', JStr s),
                        (''code'', JStr ''WALLET_CREATION_ERROR'')])"
  using assms
  by (auto simp add: createCrossmintWallet_def createCrossmintWallet_try_def Let_def
                     try_catch_simps catch_error_Error split: if_splits prod.splits)

section \<open>No exception reaches the caller\<close>

text \<open>
  Claim C1. Take any arguments and any \<^verbatim>\<open>fetch\<close> whose promises settle the way the
  platform's do: the promise of \<^verbatim>\<open>fetch\<close> and the promise of \<^verbatim>\<open>json()\<close> are each
  fulfilled, or rejected with an error (a network failure or a JSON parse failure is an
  error object, so not \<^verbatim>\<open>null\<close> or \<^verbatim>\<open>undefined\<close>). Then each of
  \<^verbatim>\<open>createCrossmintWallet\<close>, \<^verbatim>\<open>getCrossmintWallet\<close> and \<^verbatim>\<open>listCrossmintWallets\<close>
  returns a value: it neither throws nor hangs. The function sends at most one request, and
  every failure ends in a returned object with the status \<^verbatim>\<open>error\<close>, a \<^verbatim>\<open>message\<close> and a
  \<^verbatim>\<open>code\<close>, as follows, where the default code is \<^verbatim>\<open>WALLET_CREATION_ERROR\<close>,
  \<^verbatim>\<open>WALLET_FETCH_ERROR\<close> or \<^verbatim>\<open>WALLET_LIST_ERROR\<close>:
  \<^item> when no request is sent (a validation of \<^verbatim>\<open>createCrossmintWallet\<close> failed), the
    message is a string and the code is the default code;
  \<^item> when \<^verbatim>\<open>fetch\<close> rejects, or \<^verbatim>\<open>json()\<close> rejects (on any status), the message is the
    message of the rejection, and the code is its code if that is truthy and the default
    code otherwise;
  \<^item> when the response is not ok and its body parses, the code is the default code, and the
    message is the string conversion of the body's truthy \<^verbatim>\<open>message\<close> field (the message
    of the TypeError when that conversion throws),
    \<^verbatim>\<open>HTTP error! status: \<close> with the status code when the field is absent or falsy, and
    the message of the TypeError of the property read when the body is \<^verbatim>\<open>null\<close>;
  \<^item> when the response is ok and its body is \<^verbatim>\<open>null\<close>, the message is that of the
    TypeError of reading the first property (\<^verbatim>\<open>walletId\<close> or \<^verbatim>\<open>wallets\<close>), and the code
    is the default code.
  In the one remaining case, a response that is ok with a body other than \<^verbatim>\<open>null\<close>, the
  returned object has the status \<^verbatim>\<open>success\<close>.
\<close>

theorem operations_never_throw:
  assumes "\<And>request. settles (fetch request)"
      and "\<And>request response. fetch request = Value response \<Longrightarrow> settles (json response)"
  shows "\<forall>(r, sent, default_code, first_property) \<in> set
           [(fst (createCrossmintWallet fetch agent linkedUser apiKey),
             snd (createCrossmintWallet fetch agent linkedUser apiKey),
             ''WALLET_CREATION_ERROR'', ''walletId''),
            (fst (getCrossmintWallet fetch agent walletId apiKey),
             snd (getCrossmintWallet fetch agent walletId apiKey),
             ''WALLET_FETCH_ERROR'', ''walletId''),
            (fst (listCrossmintWallets fetch agent apiKey),
             snd (listCrossmintWallets fetch agent apiKey),
             ''WALLET_LIST_ERROR'', ''wallets'')].
           (\<exists>result. r = Value result)
         \<and> length sent \<le> 1
         \<and> (sent = [] \<longrightarrow>
               (\<exists>s. r = Value (JObj [(''status'', JStr ''error''),
                                       (''message'', JStr s),
                                       (''code'', JStr default_code)])))
         \<and> (\<forall>request \<in> set sent.
               (\<forall>error. fetch request = Thrown error \<longrightarrow>
                  r = Value (JObj [(''status'', JStr ''error''),
                                   (''message'', own_prop error ''message''),
                                   (''code'', if truthy (own_prop error ''code'')
                                             then own_prop error ''code''
                                             else JStr default_code)]))
             \<and> (\<forall>response. fetch request = Value response \<longrightarrow>
                  (\<forall>error. json response = Thrown error \<longrightarrow>
                     r = Value (JObj [(''status'', JStr ''error''),
                                      (''message'', own_prop error ''message''),
                                      (''code'', if truthy (own_prop error ''code'')
                                                then own_prop error ''code''
                                                else JStr default_code)]))
                \<and> (\<forall>errorData. json response = Value errorData \<and> \<not> ok response \<longrightarrow>
                     r = Value (JObj [(''status'', JStr ''error''),
                                      (''message'',
                                         if nullish errorData
                                         then own_prop (TypeError_read errorData ''message'') ''message''
                                         else if truthy (own_prop errorData ''message'') then
                                           (case ToString (own_prop errorData ''message'') of
                                              Value s \<Rightarrow> JStr s
                                            | Thrown e \<Rightarrow> own_prop e ''message''
                                            | Never \<Rightarrow> JUndefined)
                                         else JStr (''HTTP error! status: ''
                                                    @ decimal (status response))),
                                      (''code'', JStr default_code)]))
                \<and> (\<forall>data. json response = Value data \<and> ok response \<and> nullish data \<longrightarrow>
                     r = Value (JObj [(''status'', JStr ''error''),
                                      (''message'',
                                         own_prop (TypeError_read data first_property) ''message''),
                                      (''code'', JStr default_code)]))
                \<and> (\<forall>data. json response = Value data \<and> ok response \<and> \<not> nullish data \<longrightarrow>
                     (\<exists>result. r = Value result
                        \<and> own_prop result ''status'' = JStr ''success''))))"
proof -
  define paths where "paths =
    (\<lambda>(r, sent, default_code, first_property).
           (\<exists>result. r = Value result)
         \<and> length sent \<le> 1
         \<and> (sent = [] \<longrightarrow>
               (\<exists>s. r = Value (JObj [(''status'', JStr ''error''),
                                       (''message'', JStr s),
                                       (''code'', JStr default_code)])))
         \<and> (\<forall>request \<in> set sent.
               (\<forall>error. fetch request = Thrown error \<longrightarrow>
                  r = Value (JObj [(''status'', JStr ''error''),
                                   (''message'', own_prop error ''message''),
                                   (''code'', if truthy (own_prop error ''code'')
                                             then own_prop error ''code''
                                             else JStr default_code)]))
             \<and> (\<forall>response. fetch request = Value response \<longrightarrow>
                  (\<forall>error. json response = Thrown error \<longrightarrow>
                     r = Value (JObj [(''status'', JStr ''error''),
                                      (''message'', own_prop error ''message''),
                                      (''code'', if truthy (own_prop error ''code'')
                                                then own_prop error ''code''
                                                else JStr default_code)]))
                \<and> (\<forall>errorData. json response = Value errorData \<and> \<not> ok response \<longrightarrow>
                     r = Value (JObj [(''status'', JStr ''error''),
                                      (''message'',
                                         if nullish errorData
                                         then own_prop (TypeError_read errorData ''message'') ''message''
                                         else if truthy (own_prop errorData ''message'') then
                                           (case ToString (own_prop errorData ''message'') of
                                              Value s \<Rightarrow> JStr s
                                            | Thrown e \<Rightarrow> own_prop e ''message''
                                            | Never \<Rightarrow> JUndefined)
                                         else JStr (''HTTP error! status: ''
                                                    @ decimal (status response))),
                                      (''code'', JStr default_code)]))
                \<and> (\<forall>data. json response = Value data \<and> ok response \<and> nullish data \<longrightarrow>
                     r = Value (JObj [(''status'', JStr ''error''),
                                      (''message'',
                                         own_prop (TypeError_read data first_property) ''message''),
                                      (''code'', JStr default_code)]))
                \<and> (\<forall>data. json response = Value data \<and> ok response \<and> \<not> nullish data \<longrightarrow>
                     (\<exists>result. r = Value result
                        \<and> own_prop result ''status'' = JStr ''success'')))))"
  have sent_one: "paths (r, [request], d, p)"
    if r: "r = try_catch
                 (and_then (fetch request) (\<lambda>response.
                  and_then (throw_unless_ok response) (\<lambda>_.
                  and_then (json response) (\<lambda>data.
                  and_then (get_prop data p) (K data)))))
                 (catch_error d)"
      and K: "\<And>data. \<not> nullish data \<Longrightarrow>
                \<exists>result. K data (own_prop data p) = Value result
                          \<and> own_prop result ''status'' = JStr ''success''"
    for r request d p K
  proof -
    have rejected: "r = Value (JObj [(''status'', JStr ''error''),
                                     (''message'', own_prop error ''message''),
                                     (''code'', if truthy (own_prop error ''code'')
                                               then own_prop error ''code'' else JStr d)])"
      if "fetch request = Thrown error" for error
    proof -
      have "\<not> nullish error"
        using assms(1) [of request] that by (simp add: settles_simps)
      then show ?thesis
        using that by (simp add: r and_then_simps try_catch_simps catch_error_not_nullish)
    qed
    have body_rejected: "r = Value (JObj [(''status'', JStr ''error''),
                                     (''message'', own_prop error ''message''),
                                     (''code'', if truthy (own_prop error ''code'')
                                               then own_prop error ''code'' else JStr d)])"
      if "fetch request = Value response" and "json response = Thrown error" for response error
    proof -
      have "\<not> nullish error"
        using assms(2) [OF that(1)] that(2) by (simp add: settles_simps)
      then show ?thesis
        using that(1)
        by (simp add: r and_then_simps block_json_thrown [OF that(2)] try_catch_simps
                      catch_error_not_nullish)
    qed
    have not_ok: "r = Value (JObj [(''status'', JStr ''error''),
                                      (''message'',
                                         if nullish errorData
                                         then own_prop (TypeError_read errorData ''message'') ''message''
                                         else if truthy (own_prop errorData ''message'') then
                                           (case ToString (own_prop errorData ''message'') of
                                              Value s \<Rightarrow> JStr s
                                            | Thrown e \<Rightarrow> own_prop e ''message''
                                            | Never \<Rightarrow> JUndefined)
                                         else JStr (''HTTP error! status: ''
                                                    @ decimal (status response))),
                                      (''code'', JStr d)])"
      if "fetch request = Value response" and "json response = Value errorData"
         and "\<not> ok response" for response errorData
      using that(1) block_not_ok [OF that(3,2)]
      by (simp add: r and_then_simps)
    have ok_null: "r = Value (JObj [(''status'', JStr ''error''),
                                    (''message'', own_prop (TypeError_read data p) ''message''),
                                    (''code'', JStr d)])"
      if "fetch request = Value response" and "json response = Value data"
         and "ok response" and "nullish data" for response data
      using that(1) block_ok_null [OF that(3,2,4)]
      by (simp add: r and_then_simps)
    have ok_parsed: "\<exists>result. r = Value result \<and> own_prop result ''status'' = JStr ''success''"
      if "fetch request = Value response" and "json response = Value data"
         and "ok response" and "\<not> nullish data" for response data
      using that(1) K [OF that(4)]
      by (auto simp add: r and_then_simps block_ok_parsed [OF that(3,2,4)] try_catch_simps)
    have returns: "\<exists>result. r = Value result"
    proof (cases "fetch request")
      case (Value response)
      show ?thesis
      proof (cases "json response")
        case parsed: (Value data)
        show ?thesis
          using not_ok [OF Value parsed] ok_null [OF Value parsed] ok_parsed [OF Value parsed]
          by (cases "ok response"; cases "nullish data") blast+
      next
        case (Thrown error)
        then show ?thesis using body_rejected [OF Value] by blast
      next
        case Never
        then show ?thesis using assms(2) [OF Value] by (simp add: settles_simps)
      qed
    next
      case (Thrown error)
      then show ?thesis using rejected by blast
    next
      case Never
      then show ?thesis using assms(1) [of request] by (simp add: settles_simps)
    qed
    show ?thesis
      unfolding paths_def using returns rejected body_rejected not_ok ok_null ok_parsed
      by simp blast
  qed
  have wallet: "\<exists>result.
          and_then (get_prop data ''address'') (\<lambda>address.
            Value (JObj [(''status'', JStr ''success''),
                         (''walletId'', w),
                         (''address'', address)])) = Value result
        \<and> own_prop result ''status'' = JStr ''success''"
    if "\<not> nullish data" for data w
    using that by (simp add: get_prop_simps and_then_simps)
  have c: "paths (fst (createCrossmintWallet fetch agent linkedUser apiKey),
                  snd (createCrossmintWallet fetch agent linkedUser apiKey),
                  ''WALLET_CREATION_ERROR'', ''walletId'')"
  proof (cases "snd (createCrossmintWallet fetch agent linkedUser apiKey)")
    case Nil
    then show ?thesis
      using create_not_sent [OF Nil] by (auto simp add: paths_def)
  next
    case (Cons request rest)
    then have sent: "snd (createCrossmintWallet fetch agent linkedUser apiKey) = [request]"
      using create_sent_length [of fetch agent linkedUser apiKey] by simp
    show ?thesis
      unfolding sent
      by (rule sent_one [OF create_by_request [OF sent]]) (rule wallet)
  qed
  have g: "paths (fst (getCrossmintWallet fetch agent walletId apiKey),
                  snd (getCrossmintWallet fetch agent walletId apiKey),
                  ''WALLET_FETCH_ERROR'', ''walletId'')"
    unfolding get_sent
    by (rule sent_one [OF get_by_request [OF get_sent]]) (rule wallet)
  have l: "paths (fst (listCrossmintWallets fetch agent apiKey),
                  snd (listCrossmintWallets fetch agent apiKey),
                  ''WALLET_LIST_ERROR'', ''wallets'')"
    unfolding list_sent
    by (rule sent_one [OF list_by_request [OF list_sent]]) simp
  have "\<forall>x \<in> set
           [(fst (createCrossmintWallet fetch agent linkedUser apiKey),
             snd (createCrossmintWallet fetch agent linkedUser apiKey),
             ''WALLET_CREATION_ERROR'', ''walletId''),
            (fst (getCrossmintWallet fetch agent walletId apiKey),
             snd (getCrossmintWallet fetch agent walletId apiKey),
             ''WALLET_FETCH_ERROR'', ''walletId''),
            (fst (listCrossmintWallets fetch agent apiKey),
             snd (listCrossmintWallets fetch agent apiKey),
             ''WALLET_LIST_ERROR'', ''wallets'')]. paths x"
    using c g l by simp
  then show ?thesis
    unfolding paths_def .
qed

theorem operations_never_throw_witness:
  "(\<forall>request. settles (fetch_fulfilled 500 (Thrown (Error ''Unexpected end of JSON input'')) request))
   \<and> settles (json \<lparr>status = 500, json = Thrown (Error ''Unexpected end of JSON input'')\<rparr>)
   \<and> createCrossmintWallet (fetch_fulfilled 500 (Thrown (Error ''Unexpected end of JSON input'')))
        () ''email:a@b.com'' ''sk_test'' =
       (Value (JObj [(''status'', JStr ''error''),
                     (''message'', JStr ''Unexpected end of JSON input''),
                     (''code'', JStr ''WALLET_CREATION_ERROR'')]),
        [\<lparr>url = ''https://staging.crossmint.com/api/v1-alpha2/wallets'',
          method' = ''POST'',
          headers = [(''X-API-KEY'', ''sk_test''), (''Content-Type'', ''application/json'')],
          body = Some (JObj [(''type'', JStr ''solana-mpc-wallet''),
                             (''linkedUser'', JStr ''email:a@b.com'')])\<rparr>])
   \<and> getCrossmintWallet (fetch_fulfilled 500 (Thrown (Error ''Unexpected end of JSON input'')))
        () ''w1'' ''sk_test'' =
       (Value (JObj [(''status'', JStr ''error''),
                     (''message'', JStr ''Unexpected end of JSON input''),
                     (''code'', JStr ''WALLET_FETCH_ERROR'')]),
        [\<lparr>url = ''https://staging.crossmint.com/api/v1-alpha2/wallets/w1'',
          method' = ''GET'',
          headers = [(''X-API-KEY'', ''sk_test''), (''Content-Type'', ''application/json'')],
          body = None\<rparr>])
   \<and> listCrossmintWallets (fetch_fulfilled 500 (Thrown (Error ''Unexpected end of JSON input'')))
        () ''sk_test'' =
       (Value (JObj [(''status'', JStr ''error''),
                     (''message'', JStr ''Unexpected end of JSON input''),
                     (''code'', JStr ''WALLET_LIST_ERROR'')]),
        [\<lparr>url = ''https://staging.crossmint.com/api/v1-alpha2/wallets'',
          method' = ''GET'',
          headers = [(''X-API-KEY'', ''sk_test''), (''Content-Type'', ''application/json'')],
          body = None\<rparr>])"
proof -
  let ?fetch = "fetch_fulfilled 500 (Thrown (Error ''Unexpected end of JSON input''))"
  have a: "settles (?fetch request)" for request
    by (simp add: fetch_fulfilled_def settles_def)
  have b: "settles (json response)" if "?fetch request = Value response" for request response
    using that by (auto simp add: fetch_fulfilled_def settles_def Error_def)
  have sent: "snd (createCrossmintWallet ?fetch () ''email:a@b.com'' ''sk_test'') =
                [\<lparr>url = ''https://staging.crossmint.com/api/v1-alpha2/wallets'',
                  method' = ''POST'',
                  headers = [(''X-API-KEY'', ''sk_test''), (''Content-Type'', ''application/json'')],
                  body = Some (JObj [(''type'', JStr ''solana-mpc-wallet''),
                                     (''linkedUser'', JStr ''email:a@b.com'')])\<rparr>]"
    by (simp add: createCrossmintWallet_def createCrossmintWallet_try_def startsWith_def Let_def)
  show ?thesis
    using a sent
          operations_never_throw [where fetch = ?fetch and agent = "()"
                                    and linkedUser = "''email:a@b.com''" and apiKey = "''sk_test''"
                                    and walletId = "''w1''", OF a b]
    by (simp add: prod_eq_iff get_sent list_sent fetch_fulfilled_def own_prop_Error
                  settles_def not_nullish_Error)
qed

section \<open>Responses that are not ok\<close>

text \<open>
  Claim C4, as the code has it. Let \<^verbatim>\<open>createCrossmintWallet\<close> have sent its request and
  let the answer be a response that is not ok whose body parses to a JSON value other than
  \<^verbatim>\<open>null\<close>. Then the function returns an error result with the code
  \<^verbatim>\<open>WALLET_CREATION_ERROR\<close>. Its message is the string conversion of the body's
  \<^verbatim>\<open>message\<close> field when that field is truthy and converts to a string, so it is the
  field itself when the field is a non-empty string; it is
  \<^verbatim>\<open>HTTP error! status: \<close> followed by the status code when the field is absent or falsy.
  The claim as written fails on the body \<^verbatim>\<open>null\<close>, where the message is that of the
  TypeError of the property read, and on a field that is not a string, where the message
  is the field's rendering and not the field.
\<close>

theorem create_http_error:
  assumes "snd (createCrossmintWallet fetch agent linkedUser apiKey) = [request]"
      and "fetch request = Value response"
      and "\<not> ok response"
      and "json response = Value errorData"
      and "\<not> nullish errorData"
  shows "(\<forall>s. truthy (own_prop errorData ''message'')
              \<and> ToString (own_prop errorData ''message'') = Value s \<longrightarrow>
            fst (createCrossmintWallet fetch agent linkedUser apiKey) =
              Value (JObj [(''status'', JStr ''error''),
                           (''message'', JStr s),
                           (''code'', JStr ''WALLET_CREATION_ERROR'')]))
       \<and> (\<forall>s. own_prop errorData ''message'' = JStr s \<and> s \<noteq> [] \<longrightarrow>
            fst (createCrossmintWallet fetch agent linkedUser apiKey) =
              Value (JObj [(''status'', JStr ''error''),
                           (''message'', own_prop errorData ''message''),
                           (''code'', JStr ''WALLET_CREATION_ERROR'')]))
       \<and> (\<not> truthy (own_prop errorData ''message'') \<longrightarrow>
            fst (createCrossmintWallet fetch agent linkedUser apiKey) =
              Value (JObj [(''status'', JStr ''error''),
                           (''message'', JStr (''HTTP error! status: '' @ decimal (status response))),
                           (''code'', JStr ''WALLET_CREATION_ERROR'')]))"
proof -
  note answered = create_answered [OF assms(1,2)]
  have general: "fst (createCrossmintWallet fetch agent linkedUser apiKey) =
              Value (JObj [(''status'', JStr ''error''),
                           (''message'', JStr s),
                           (''code'', JStr ''WALLET_CREATION_ERROR'')])"
    if "truthy (own_prop errorData ''message'')"
       and "ToString (own_prop errorData ''message'') = Value s" for s
    using throw_unless_ok_message [OF assms(3,4,5) that]
    by (simp add: answered and_then_simps try_catch_simps catch_error_Error)
  have string: "fst (createCrossmintWallet fetch agent linkedUser apiKey) =
              Value (JObj [(''status'', JStr ''error''),
                           (''message'', own_prop errorData ''message''),
                           (''code'', JStr ''WALLET_CREATION_ERROR'')])"
    if "own_prop errorData ''message'' = JStr s" and "s \<noteq> []" for s
    using general [of s] that by simp
  have fallback: "fst (createCrossmintWallet fetch agent linkedUser apiKey) =
              Value (JObj [(''status'', JStr ''error''),
                           (''message'', JStr (''HTTP error! status: '' @ decimal (status response))),
                           (''code'', JStr ''WALLET_CREATION_ERROR'')])"
    if "\<not> truthy (own_prop errorData ''message'')"
    using throw_unless_ok_status [OF assms(3,4,5) that]
    by (simp add: answered and_then_simps try_catch_simps catch_error_Error)
  show ?thesis
    using general string fallback by blast
qed

theorem create_http_error_witness:
  "snd (createCrossmintWallet (fetch_fulfilled 400 (Value (JObj [(''message'', JStr ''bad request'')])))
         () ''email:a@b.com'' ''sk_test'') =
     [\<lparr>url = ''https://staging.crossmint.com/api/v1-alpha2/wallets'',
       method' = ''POST'',
       headers = [(''X-API-KEY'', ''sk_test''), (''Content-Type'', ''application/json'')],
       body = Some (JObj [(''type'', JStr ''solana-mpc-wallet''),
                          (''linkedUser'', JStr ''email:a@b.com'')])\<rparr>]
   \<and> \<not> ok \<lparr>status = 400, json = Value (JObj [(''message'', JStr ''bad request'')])\<rparr>
   \<and> \<not> nullish (JObj [(''message'', JStr ''bad request'')])
   \<and> fst (createCrossmintWallet (fetch_fulfilled 400 (Value (JObj [(''message'', JStr ''bad request'')])))
           () ''email:a@b.com'' ''sk_test'') =
        Value (JObj [(''status'', JStr ''error''),
                     (''message'', JStr ''bad request''),
                     (''code'', JStr ''WALLET_CREATION_ERROR'')])
   \<and> fst (createCrossmintWallet (fetch_fulfilled 404 (Value (JObj [])))
           () ''id:42'' ''sk_test'') =
        Value (JObj [(''status'', JStr ''error''),
                     (''message'', JStr ''HTTP error! status: 404''),
                     (''code'', JStr ''WALLET_CREATION_ERROR'')])"
proof -
  let ?body = "JObj [(''message'', JStr ''bad request'')]"
  let ?request = "\<lparr>url = ''https://staging.crossmint.com/api/v1-alpha2/wallets'',
                    method' = ''POST'',
                    headers = [(''X-API-KEY'', ''sk_test''), (''Content-Type'', ''application/json'')],
                    body = Some (JObj [(''type'', JStr ''solana-mpc-wallet''),
                                       (''linkedUser'', JStr ''email:a@b.com'')])\<rparr>"
  let ?request' = "\<lparr>url = ''https://staging.crossmint.com/api/v1-alpha2/wallets'',
                    method' = ''POST'',
                    headers = [(''X-API-KEY'', ''sk_test''), (''Content-Type'', ''application/json'')],
                    body = Some (JObj [(''type'', JStr ''solana-mpc-wallet''),
                                       (''linkedUser'', JStr ''id:42'')])\<rparr>"
  have sent: "snd (createCrossmintWallet (fetch_fulfilled 400 (Value ?body)) () ''email:a@b.com'' ''sk_test'')
                = [?request]"
    by (simp add: createCrossmintWallet_def createCrossmintWallet_try_def startsWith_def Let_def)
  have answer: "fetch_fulfilled 400 (Value ?body) ?request = Value \<lparr>status = 400, json = Value ?body\<rparr>"
    by (simp add: fetch_fulfilled_def)
  have not_ok: "\<not> ok \<lparr>status = 400, json = Value ?body\<rparr>"
    by (simp add: ok_def)
  have parsed: "json \<lparr>status = 400, json = Value ?body\<rparr> = Value ?body"
    by simp
  have object: "\<not> nullish ?body"
    by simp
  have sent': "snd (createCrossmintWallet (fetch_fulfilled 404 (Value (JObj []))) () ''id:42'' ''sk_test'')
                = [?request']"
    by (simp add: createCrossmintWallet_def createCrossmintWallet_try_def startsWith_def Let_def)
  have answer': "fetch_fulfilled 404 (Value (JObj [])) ?request' = Value \<lparr>status = 404, json = Value (JObj [])\<rparr>"
    by (simp add: fetch_fulfilled_def)
  have not_ok': "\<not> ok \<lparr>status = 404, json = Value (JObj [])\<rparr>"
    by (simp add: ok_def)
  have parsed': "json \<lparr>status = 404, json = Value (JObj [])\<rparr> = Value (JObj [])"
    by simp
  have object': "\<not> nullish (JObj [])"
    by simp
  have d: "decimal 404 = ''404''"
    by (simp add: decimal.simps digit_def)
  show ?thesis
    using sent not_ok
          create_http_error [OF sent answer not_ok parsed object]
          create_http_error [OF sent' answer' not_ok' parsed' object']
    by (simp add: d)
qed

theorem create_http_error_counterexample:
  "fst (createCrossmintWallet (fetch_fulfilled 400 (Value JNull)) () ''email:a@b.com'' ''sk_test'') =
     Value (JObj [(''status'', JStr ''error''),
                  (''message'', JStr ''Cannot read properties of null (reading 'message')''),
                  (''code'', JStr ''WALLET_CREATION_ERROR'')])
   \<and> JStr ''Cannot read properties of null (reading 'message')'' \<noteq> JStr ''HTTP error! status: 400''
   \<and> fst (createCrossmintWallet (fetch_fulfilled 400 (Value (JObj [(''message'', JBool True)])))
           () ''email:a@b.com'' ''sk_test'') =
     Value (JObj [(''status'', JStr ''error''),
                  (''message'', JStr ''true''),
                  (''code'', JStr ''WALLET_CREATION_ERROR'')])
   \<and> truthy (own_prop (JObj [(''message'', JBool True)]) ''message'')
   \<and> JStr ''true'' \<noteq> own_prop (JObj [(''message'', JBool True)]) ''message''"
  by (simp add: run)

section \<open>Successful responses\<close>

text \<open>
  Claim C5, as the code has it. Let the request of \<^verbatim>\<open>createCrossmintWallet\<close>, or of
  \<^verbatim>\<open>getCrossmintWallet\<close>, be answered by a response with a status from 200 to 299 whose
  body parses to a JSON value other than \<^verbatim>\<open>null\<close>. Then the function returns the success
  result whose \<^verbatim>\<open>walletId\<close> and \<^verbatim>\<open>address\<close> are the properties of these names of the
  parsed body, and a property that the body does not have is passed on as
  \<^verbatim>\<open>undefined\<close>. The claim as written fails on the body \<^verbatim>\<open>null\<close>, for which the
  property read throws and an error result is returned.
\<close>

theorem wallet_success:
  assumes "fetch request = Value response"
      and "ok response"
      and "json response = Value data"
      and "\<not> nullish data"
  shows "(snd (createCrossmintWallet fetch agent linkedUser apiKey) = [request] \<longrightarrow>
            fst (createCrossmintWallet fetch agent linkedUser apiKey) =
              Value (JObj [(''status'', JStr ''success''),
                           (''walletId'', own_prop data ''walletId''),
                           (''address'', own_prop data ''address'')]))
       \<and> (snd (getCrossmintWallet fetch agent walletId apiKey) = [request] \<longrightarrow>
            fst (getCrossmintWallet fetch agent walletId apiKey) =
              Value (JObj [(''status'', JStr ''success''),
                           (''walletId'', own_prop data ''walletId''),
                           (''address'', own_prop data ''address'')]))
       \<and> (\<not> has_own data ''walletId'' \<longrightarrow> own_prop data ''walletId'' = JUndefined)
       \<and> (\<not> has_own data ''address'' \<longrightarrow> own_prop data ''address'' = JUndefined)"
proof (intro conjI impI)
  assume "snd (createCrossmintWallet fetch agent linkedUser apiKey) = [request]"
  then show "fst (createCrossmintWallet fetch agent linkedUser apiKey) =
              Value (JObj [(''status'', JStr ''success''),
                           (''walletId'', own_prop data ''walletId''),
                           (''address'', own_prop data ''address'')])"
    using assms
    by (simp add: create_answered and_then_simps try_catch_simps throw_unless_ok_ok get_prop_simps)
next
  assume "snd (getCrossmintWallet fetch agent walletId apiKey) = [request]"
  then show "fst (getCrossmintWallet fetch agent walletId apiKey) =
              Value (JObj [(''status'', JStr ''success''),
                           (''walletId'', own_prop data ''walletId''),
                           (''address'', own_prop data ''address'')])"
    using assms
    by (simp add: get_answered and_then_simps try_catch_simps throw_unless_ok_ok get_prop_simps)
qed (simp_all add: own_prop_absent)

theorem wallet_success_witness:
  "fetch_fulfilled 200 (Value (JObj [(''walletId'', JStr ''w1''), (''address'', JStr ''addr1'')]))
     \<lparr>url = ''https://staging.crossmint.com/api/v1-alpha2/wallets'',
      method' = ''POST'',
      headers = [(''X-API-KEY'', ''sk_test''), (''Content-Type'', ''application/json'')],
      body = Some (JObj [(''type'', JStr ''solana-mpc-wallet''),
                         (''linkedUser'', JStr ''email:a@b.com'')])\<rparr> =
     Value \<lparr>status = 200,
            json = Value (JObj [(''walletId'', JStr ''w1''), (''address'', JStr ''addr1'')])\<rparr>
   \<and> ok \<lparr>status = 200,
          json = Value (JObj [(''walletId'', JStr ''w1''), (''address'', JStr ''addr1'')])\<rparr>
   \<and> \<not> nullish (JObj [(''walletId'', JStr ''w1''), (''address'', JStr ''addr1'')])
   \<and> createCrossmintWallet
        (fetch_fulfilled 200 (Value (JObj [(''walletId'', JStr ''w1''), (''address'', JStr ''addr1'')])))
        () ''email:a@b.com'' ''sk_test'' =
       (Value (JObj [(''status'', JStr ''success''),
                     (''walletId'', JStr ''w1''),
                     (''address'', JStr ''addr1'')]),
        [\<lparr>url = ''https://staging.crossmint.com/api/v1-alpha2/wallets'',
          method' = ''POST'',
          headers = [(''X-API-KEY'', ''sk_test''), (''Content-Type'', ''application/json'')],
          body = Some (JObj [(''type'', JStr ''solana-mpc-wallet''),
                             (''linkedUser'', JStr ''email:a@b.com'')])\<rparr>])
   \<and> getCrossmintWallet (fetch_fulfilled 204 (Value (JObj [(''walletId'', JStr ''w1'')])))
        () ''w1'' ''sk_test'' =
       (Value (JObj [(''status'', JStr ''success''),
                     (''walletId'', JStr ''w1''),
                     (''address'', JUndefined)]),
        [\<lparr>url = ''https://staging.crossmint.com/api/v1-alpha2/wallets/w1'',
          method' = ''GET'',
          headers = [(''X-API-KEY'', ''sk_test''), (''Content-Type'', ''application/json'')],
          body = None\<rparr>])"
proof -
  let ?data = "JObj [(''walletId'', JStr ''w1''), (''address'', JStr ''addr1'')]"
  let ?post = "\<lparr>url = ''https://staging.crossmint.com/api/v1-alpha2/wallets'',
                 method' = ''POST'',
                 headers = [(''X-API-KEY'', ''sk_test''), (''Content-Type'', ''application/json'')],
                 body = Some (JObj [(''type'', JStr ''solana-mpc-wallet''),
                                    (''linkedUser'', JStr ''email:a@b.com'')])\<rparr>"
  let ?data' = "JObj [(''walletId'', JStr ''w1'')]"
  let ?get = "\<lparr>url = ''https://staging.crossmint.com/api/v1-alpha2/wallets/w1'',
                method' = ''GET'',
                headers = [(''X-API-KEY'', ''sk_test''), (''Content-Type'', ''application/json'')],
                body = None\<rparr>"
  have answer: "fetch_fulfilled 200 (Value ?data) ?post = Value \<lparr>status = 200, json = Value ?data\<rparr>"
    by (simp add: fetch_fulfilled_def)
  have is_ok: "ok \<lparr>status = 200, json = Value ?data\<rparr>"
    by (simp add: ok_def)
  have parsed: "json \<lparr>status = 200, json = Value ?data\<rparr> = Value ?data"
    by simp
  have object: "\<not> nullish ?data"
    by simp
  have sent: "snd (createCrossmintWallet (fetch_fulfilled 200 (Value ?data)) () ''email:a@b.com'' ''sk_test'')
                = [?post]"
    by (simp add: createCrossmintWallet_def createCrossmintWallet_try_def startsWith_def Let_def)
  have answer': "fetch_fulfilled 204 (Value ?data') ?get = Value \<lparr>status = 204, json = Value ?data'\<rparr>"
    by (simp add: fetch_fulfilled_def)
  have is_ok': "ok \<lparr>status = 204, json = Value ?data'\<rparr>"
    by (simp add: ok_def)
  have parsed': "json \<lparr>status = 204, json = Value ?data'\<rparr> = Value ?data'"
    by simp
  have object': "\<not> nullish ?data'"
    by simp
  have sent': "snd (getCrossmintWallet (fetch_fulfilled 204 (Value ?data')) () ''w1'' ''sk_test'') = [?get]"
    by (simp add: get_sent)
  show ?thesis
    using answer is_ok sent sent'
          wallet_success [where fetch = "fetch_fulfilled 200 (Value ?data)" and request = ?post
                            and agent = "()" and linkedUser = "''email:a@b.com''"
                            and apiKey = "''sk_test''",
                          OF answer is_ok parsed object]
          wallet_success [where fetch = "fetch_fulfilled 204 (Value ?data')" and request = ?get
                            and agent = "()" and walletId = "''w1''" and apiKey = "''sk_test''",
                          OF answer' is_ok' parsed' object']
    by (simp add: prod_eq_iff)
qed

theorem wallet_success_counterexample:
  "ok \<lparr>status = 200, json = Value JNull\<rparr>
   \<and> createCrossmintWallet (fetch_fulfilled 200 (Value JNull)) () ''email:a@b.com'' ''sk_test'' =
       (Value (JObj [(''status'', JStr ''error''),
                     (''message'', JStr ''Cannot read properties of null (reading 'walletId')''),
                     (''code'', JStr ''WALLET_CREATION_ERROR'')]),
        [\<lparr>url = ''https://staging.crossmint.com/api/v1-alpha2/wallets'',
          method' = ''POST'',
          headers = [(''X-API-KEY'', ''sk_test''), (''Content-Type'', ''application/json'')],
          body = Some (JObj [(''type'', JStr ''solana-mpc-wallet''),
                             (''linkedUser'', JStr ''email:a@b.com'')])\<rparr>])
   \<and> getCrossmintWallet (fetch_fulfilled 200 (Value JNull)) () ''w1'' ''sk_test'' =
       (Value (JObj [(''status'', JStr ''error''),
                     (''message'', JStr ''Cannot read properties of null (reading 'walletId')''),
                     (''code'', JStr ''WALLET_FETCH_ERROR'')]),
        [\<lparr>url = ''https://staging.crossmint.com/api/v1-alpha2/wallets/w1'',
          method' = ''GET'',
          headers = [(''X-API-KEY'', ''sk_test''), (''Content-Type'', ''application/json'')],
          body = None\<rparr>])"
  by (simp add: run)

text \<open>
  Claim C7, as the code has it. Let the request of \<^verbatim>\<open>listCrossmintWallets\<close> be answered by
  a response with a status from 200 to 299 whose body parses to a JSON value other than
  \<^verbatim>\<open>null\<close>. Then the function returns the success result whose \<^verbatim>\<open>wallets\<close> is the
  \<^verbatim>\<open>wallets\<close> property of the parsed body, unchanged: the same records in the same order.
  The claim as written fails on the body \<^verbatim>\<open>null\<close>, for which an error result is returned.
\<close>

theorem list_success:
  assumes "snd (listCrossmintWallets fetch agent apiKey) = [request]"
      and "fetch request = Value response"
      and "ok response"
      and "json response = Value data"
      and "\<not> nullish data"
  shows "fst (listCrossmintWallets fetch agent apiKey) =
           Value (JObj [(''status'', JStr ''success''),
                        (''wallets'', own_prop data ''wallets'')])"
  using assms
  by (simp add: list_answered and_then_simps try_catch_simps throw_unless_ok_ok get_prop_simps)

theorem list_success_witness:
  "ok \<lparr>status = 200,
        json = Value (JObj [(''wallets'', JArr [JObj [(''walletId'', JStr ''w1'')],
                                                JObj [(''walletId'', JStr ''w2'')]])])\<rparr>
   \<and> \<not> nullish (JObj [(''wallets'', JArr [JObj [(''walletId'', JStr ''w1'')],
                                           JObj [(''walletId'', JStr ''w2'')]])])
   \<and> listCrossmintWallets
        (fetch_fulfilled 200
           (Value (JObj [(''wallets'', JArr [JObj [(''walletId'', JStr ''w1'')],
                                             JObj [(''walletId'', JStr ''w2'')]])])))
        () ''sk_test'' =
       (Value (JObj [(''status'', JStr ''success''),
                     (''wallets'', JArr [JObj [(''walletId'', JStr ''w1'')],
                                         JObj [(''walletId'', JStr ''w2'')]])]),
        [\<lparr>url = ''https://staging.crossmint.com/api/v1-alpha2/wallets'',
          method' = ''GET'',
          headers = [(''X-API-KEY'', ''sk_test''), (''Content-Type'', ''application/json'')],
          body = None\<rparr>])"
proof -
  let ?data = "JObj [(''wallets'', JArr [JObj [(''walletId'', JStr ''w1'')],
                                         JObj [(''walletId'', JStr ''w2'')]])]"
  let ?get = "\<lparr>url = ''https://staging.crossmint.com/api/v1-alpha2/wallets'',
                method' = ''GET'',
                headers = [(''X-API-KEY'', ''sk_test''), (''Content-Type'', ''application/json'')],
                body = None\<rparr>"
  have sent: "snd (listCrossmintWallets (fetch_fulfilled 200 (Value ?data)) () ''sk_test'') = [?get]"
    by (simp add: list_sent)
  have answer: "fetch_fulfilled 200 (Value ?data) ?get = Value \<lparr>status = 200, json = Value ?data\<rparr>"
    by (simp add: fetch_fulfilled_def)
  have is_ok: "ok \<lparr>status = 200, json = Value ?data\<rparr>"
    by (simp add: ok_def)
  have parsed: "json \<lparr>status = 200, json = Value ?data\<rparr> = Value ?data"
    by simp
  have object: "\<not> nullish ?data"
    by simp
  show ?thesis
    using sent is_ok list_success [OF sent answer is_ok parsed object]
    by (simp add: prod_eq_iff)
qed

theorem list_success_counterexample:
  "ok \<lparr>status = 200, json = Value JNull\<rparr>
   \<and> listCrossmintWallets (fetch_fulfilled 200 (Value JNull)) () ''sk_test'' =
       (Value (JObj [(''status'', JStr ''error''),
                     (''message'', JStr ''Cannot read properties of null (reading 'wallets')''),
                     (''code'', JStr ''WALLET_LIST_ERROR'')]),
        [\<lparr>url = ''https://staging.crossmint.com/api/v1-alpha2/wallets'',
          method' = ''GET'',
          headers = [(''X-API-KEY'', ''sk_test''), (''Content-Type'', ''application/json'')],
          body = None\<rparr>])"
  by (simp add: run)

section \<open>A body that does not parse\<close>

text \<open>
  Claim C6, as the code has it. Let the request of \<^verbatim>\<open>getCrossmintWallet\<close> be answered by a
  response with the status 500. If its body does not parse as JSON (an empty body does
  not), \<^verbatim>\<open>json()\<close> rejects with the parse error, and the function returns an error result
  whose message is the message of that parse error and whose code is the parse error's own
  code if it has a truthy one, and \<^verbatim>\<open>WALLET_FETCH_ERROR\<close> otherwise. The message is
  \<^verbatim>\<open>HTTP error! status: 500\<close> when the body does parse, to a JSON value other than
  \<^verbatim>\<open>null\<close> that has no truthy \<^verbatim>\<open>message\<close>. The claim as written fails on the empty
  body, where the message is that of the SyntaxError.
\<close>

theorem get_http_500:
  assumes "snd (getCrossmintWallet fetch agent walletId apiKey) = [request]"
      and "fetch request = Value response"
      and "status response = 500"
  shows "(\<forall>error. json response = Thrown error \<and> \<not> nullish error \<longrightarrow>
            fst (getCrossmintWallet fetch agent walletId apiKey) =
              Value (JObj [(''status'', JStr ''error''),
                           (''message'', own_prop error ''message''),
                           (''code'', if truthy (own_prop error ''code'') then own_prop error ''code''
                                     else JStr ''WALLET_FETCH_ERROR'')]))
       \<and> (\<forall>errorData. json response = Value errorData \<and> \<not> nullish errorData
                        \<and> \<not> truthy (own_prop errorData ''message'') \<longrightarrow>
            fst (getCrossmintWallet fetch agent walletId apiKey) =
              Value (JObj [(''status'', JStr ''error''),
                           (''message'', JStr ''HTTP error! status: 500''),
                           (''code'', JStr ''WALLET_FETCH_ERROR'')]))"
proof -
  note answered = get_answered [OF assms(1,2)]
  have not_ok: "\<not> ok response"
    using assms(3) by (simp add: ok_def)
  have unparsable: "fst (getCrossmintWallet fetch agent walletId apiKey) =
              Value (JObj [(''status'', JStr ''error''),
                           (''message'', own_prop error ''message''),
                           (''code'', if truthy (own_prop error ''code'') then own_prop error ''code''
                                     else JStr ''WALLET_FETCH_ERROR'')])"
    if "json response = Thrown error" and "\<not> nullish error" for error
    using throw_unless_ok_json_thrown [OF not_ok that(1)] that(2)
    by (simp add: answered and_then_simps try_catch_simps catch_error_not_nullish)
  have parsable: "fst (getCrossmintWallet fetch agent walletId apiKey) =
              Value (JObj [(''status'', JStr ''error''),
                           (''message'', JStr ''HTTP error! status: 500''),
                           (''code'', JStr ''WALLET_FETCH_ERROR'')])"
    if "json response = Value errorData" and "\<not> nullish errorData"
       and "\<not> truthy (own_prop errorData ''message'')" for errorData
    using throw_unless_ok_status [OF not_ok that] assms(3)
    by (simp add: answered and_then_simps try_catch_simps catch_error_Error decimal_500)
  show ?thesis
    using unparsable parsable by blast
qed

theorem get_http_500_witness:
  "status \<lparr>status = 500, json = Thrown (Error ''Unexpected end of JSON input'')\<rparr> = 500
   \<and> \<not> nullish (Error ''Unexpected end of JSON input'')
   \<and> getCrossmintWallet (fetch_fulfilled 500 (Thrown (Error ''Unexpected end of JSON input'')))
        () ''w1'' ''sk_test'' =
       (Value (JObj [(''status'', JStr ''error''),
                     (''message'', JStr ''Unexpected end of JSON input''),
                     (''code'', JStr ''WALLET_FETCH_ERROR'')]),
        [\<lparr>url = ''https://staging.crossmint.com/api/v1-alpha2/wallets/w1'',
          method' = ''GET'',
          headers = [(''X-API-KEY'', ''sk_test''), (''Content-Type'', ''application/json'')],
          body = None\<rparr>])
   \<and> fst (getCrossmintWallet (fetch_fulfilled 500 (Value (JObj []))) () ''w1'' ''sk_test'') =
       Value (JObj [(''status'', JStr ''error''),
                    (''message'', JStr ''HTTP error! status: 500''),
                    (''code'', JStr ''WALLET_FETCH_ERROR'')])"
proof -
  let ?error = "Error ''Unexpected end of JSON input''"
  let ?get = "\<lparr>url = ''https://staging.crossmint.com/api/v1-alpha2/wallets/w1'',
                method' = ''GET'',
                headers = [(''X-API-KEY'', ''sk_test''), (''Content-Type'', ''application/json'')],
                body = None\<rparr>"
  have sent: "snd (getCrossmintWallet (fetch_fulfilled 500 (Thrown ?error)) () ''w1'' ''sk_test'') = [?get]"
    by (simp add: get_sent)
  have answer: "fetch_fulfilled 500 (Thrown ?error) ?get = Value \<lparr>status = 500, json = Thrown ?error\<rparr>"
    by (simp add: fetch_fulfilled_def)
  have code: "status \<lparr>status = 500, json = Thrown ?error\<rparr> = 500"
    by simp
  have sent': "snd (getCrossmintWallet (fetch_fulfilled 500 (Value (JObj []))) () ''w1'' ''sk_test'') = [?get]"
    by (simp add: get_sent)
  have answer': "fetch_fulfilled 500 (Value (JObj [])) ?get = Value \<lparr>status = 500, json = Value (JObj [])\<rparr>"
    by (simp add: fetch_fulfilled_def)
  have code': "status \<lparr>status = 500, json = Value (JObj [])\<rparr> = 500"
    by simp
  show ?thesis
    using sent get_http_500 [OF sent answer code] get_http_500 [OF sent' answer' code']
    by (simp add: prod_eq_iff not_nullish_Error own_prop_Error)
qed

theorem get_http_500_counterexample:
  "getCrossmintWallet (fetch_fulfilled 500 (Thrown (Error ''Unexpected end of JSON input'')))
     () ''w1'' ''sk_test'' =
     (Value (JObj [(''status'', JStr ''error''),
                   (''message'', JStr ''Unexpected end of JSON input''),
                   (''code'', JStr ''WALLET_FETCH_ERROR'')]),
      [\<lparr>url = ''https://staging.crossmint.com/api/v1-alpha2/wallets/w1'',
        method' = ''GET'',
        headers = [(''X-API-KEY'', ''sk_test''), (''Content-Type'', ''application/json'')],
        body = None\<rparr>])
   \<and> JStr ''Unexpected end of JSON input'' \<noteq> JStr ''HTTP error! status: 500''"
  by (simp add: run)

section \<open>The request of getCrossmintWallet\<close>

text \<open>
  Claim C8. For every \<^verbatim>\<open>walletId\<close> (the empty string included) and every \<^verbatim>\<open>apiKey\<close>
  (also one that does not start with \<^verbatim>\<open>sk_\<close>), \<^verbatim>\<open>getCrossmintWallet\<close> checks nothing
  locally: it always calls \<^verbatim>\<open>fetch\<close>, exactly once, with the GET request for that wallet
  and that key, and what it returns is what the outcome of that call makes it, case by case.
  While the promise of \<^verbatim>\<open>fetch\<close> or of \<^verbatim>\<open>json()\<close> stays pending, the function does not
  return. A rejection of either promise is returned as an error result with the message
  of the rejection and its code, or \<^verbatim>\<open>WALLET_FETCH_ERROR\<close> when it has no truthy code
  (a rejection with \<^verbatim>\<open>null\<close> or \<^verbatim>\<open>undefined\<close> makes the \<^verbatim>\<open>catch\<close> block itself throw).
  A response that is not ok gives an error result with the code \<^verbatim>\<open>WALLET_FETCH_ERROR\<close>
  and the message made from its body and status. A response that is ok gives the success
  result with the body's \<^verbatim>\<open>walletId\<close> and \<^verbatim>\<open>address\<close>, or for the body \<^verbatim>\<open>null\<close> the
  error result of the failed property read. Hence two calls whose requests have the same
  outcome return the same, whatever their wallet identifiers and keys are.
\<close>

theorem get_performs_no_validation:
  "(\<exists>request.
        snd (getCrossmintWallet fetch agent walletId apiKey) = [request]
      \<and> url request = ''https://staging.crossmint.com/api/v1-alpha2/wallets/'' @ walletId
      \<and> method' request = ''GET''
      \<and> headers request = [(''X-API-KEY'', apiKey), (''Content-Type'', ''application/json'')]
      \<and> body request = None
      \<and> (fetch request = Never \<longrightarrow>
            fst (getCrossmintWallet fetch agent walletId apiKey) = Never)
      \<and> (\<forall>error. fetch request = Thrown error \<longrightarrow>
            fst (getCrossmintWallet fetch agent walletId apiKey) =
              (if nullish error then Thrown (TypeError_read error ''message'')
               else Value (JObj [(''status'', JStr ''error''),
                                 (''message'', own_prop error ''message''),
                                 (''code'', if truthy (own_prop error ''code'')
                                           then own_prop error ''code''
                                           else JStr ''WALLET_FETCH_ERROR'')])))
      \<and> (\<forall>response. fetch request = Value response \<longrightarrow>
            (json response = Never \<longrightarrow>
               fst (getCrossmintWallet fetch agent walletId apiKey) = Never)
          \<and> (\<forall>error. json response = Thrown error \<longrightarrow>
               fst (getCrossmintWallet fetch agent walletId apiKey) =
                 (if nullish error then Thrown (TypeError_read error ''message'')
                  else Value (JObj [(''status'', JStr ''error''),
                                    (''message'', own_prop error ''message''),
                                    (''code'', if truthy (own_prop error ''code'')
                                              then own_prop error ''code''
                                              else JStr ''WALLET_FETCH_ERROR'')])))
          \<and> (\<forall>errorData. json response = Value errorData \<and> \<not> ok response \<longrightarrow>
               fst (getCrossmintWallet fetch agent walletId apiKey) =
                 Value (JObj [(''status'', JStr ''error''),
                              (''message'',
                                 if nullish errorData
                                 then own_prop (TypeError_read errorData ''message'') ''message''
                                 else if truthy (own_prop errorData ''message'') then
                                   (case ToString (own_prop errorData ''message'') of
                                      Value s \<Rightarrow> JStr s
                                    | Thrown e \<Rightarrow> own_prop e ''message''
                                    | Never \<Rightarrow> JUndefined)
                                 else JStr (''HTTP error! status: '' @ decimal (status response))),
                              (''code'', JStr ''WALLET_FETCH_ERROR'')]))
          \<and> (\<forall>data. json response = Value data \<and> ok response \<longrightarrow>
               fst (getCrossmintWallet fetch agent walletId apiKey) =
                 (if nullish data
                  then Value (JObj [(''status'', JStr ''error''),
                                    (''message'', own_prop (TypeError_read data ''walletId'') ''message''),
                                    (''code'', JStr ''WALLET_FETCH_ERROR'')])
                  else Value (JObj [(''status'', JStr ''success''),
                                    (''walletId'', own_prop data ''walletId''),
                                    (''address'', own_prop data ''address'')])))))
 \<and> (fetch (hd (snd (getCrossmintWallet fetch agent walletId apiKey)))
       = fetch' (hd (snd (getCrossmintWallet fetch' agent' walletId' apiKey'))) \<longrightarrow>
     fst (getCrossmintWallet fetch agent walletId apiKey)
       = fst (getCrossmintWallet fetch' agent' walletId' apiKey'))"
proof (intro conjI impI)
  let ?request = "\<lparr>url = ''https://staging.crossmint.com/api/v1-alpha2/wallets/'' @ walletId,
                    method' = ''GET'',
                    headers = [(''X-API-KEY'', apiKey), (''Content-Type'', ''application/json'')],
                    body = None\<rparr>"
  have sent: "snd (getCrossmintWallet fetch agent walletId apiKey) = [?request]"
    by (rule get_sent)
  note result = get_by_request [OF sent]
  have pending: "fst (getCrossmintWallet fetch agent walletId apiKey) = Never"
    if "fetch ?request = Never"
    using that by (simp add: result and_then_simps try_catch_simps)
  have rejected: "fst (getCrossmintWallet fetch agent walletId apiKey) =
                    catch_error ''WALLET_FETCH_ERROR'' error"
    if "fetch ?request = Thrown error" for error
    using that by (simp add: result and_then_simps try_catch_simps)
  have body_pending: "fst (getCrossmintWallet fetch agent walletId apiKey) = Never"
    if "fetch ?request = Value response" and "json response = Never" for response
    using that(1) by (simp add: result and_then_simps block_json_never [OF that(2)] try_catch_simps)
  have body_rejected: "fst (getCrossmintWallet fetch agent walletId apiKey) =
                         catch_error ''WALLET_FETCH_ERROR'' error"
    if "fetch ?request = Value response" and "json response = Thrown error" for response error
    using that(1) by (simp add: result and_then_simps block_json_thrown [OF that(2)] try_catch_simps)
  have not_ok: "fst (getCrossmintWallet fetch agent walletId apiKey) =
                 Value (JObj [(''status'', JStr ''error''),
                              (''message'',
                                 if nullish errorData
                                 then own_prop (TypeError_read errorData ''message'') ''message''
                                 else if truthy (own_prop errorData ''message'') then
                                   (case ToString (own_prop errorData ''message'') of
                                      Value s \<Rightarrow> JStr s
                                    | Thrown e \<Rightarrow> own_prop e ''message''
                                    | Never \<Rightarrow> JUndefined)
                                 else JStr (''HTTP error! status: '' @ decimal (status response))),
                              (''code'', JStr ''WALLET_FETCH_ERROR'')])"
    if "fetch ?request = Value response" and "json response = Value errorData"
       and "\<not> ok response" for response errorData
    using that(1) block_not_ok [OF that(3,2)]
    by (simp add: result and_then_simps)
  have is_ok: "fst (getCrossmintWallet fetch agent walletId apiKey) =
                 (if nullish data
                  then Value (JObj [(''status'', JStr ''error''),
                                    (''message'', own_prop (TypeError_read data ''walletId'') ''message''),
                                    (''code'', JStr ''WALLET_FETCH_ERROR'')])
                  else Value (JObj [(''status'', JStr ''success''),
                                    (''walletId'', own_prop data ''walletId''),
                                    (''address'', own_prop data ''address'')]))"
    if "fetch ?request = Value response" and "json response = Value data"
       and "ok response" for response data
  proof (cases "nullish data")
    case True
    then show ?thesis
      using that(1) block_ok_null [OF that(3,2) True]
      by (simp add: result and_then_simps)
  next
    case False
    then show ?thesis
      using that(1)
      by (simp add: result and_then_simps block_ok_parsed [OF that(3,2) False]
                    get_prop_simps try_catch_simps)
  qed
  show "\<exists>request.
        snd (getCrossmintWallet fetch agent walletId apiKey) = [request]
      \<and> url request = ''https://staging.crossmint.com/api/v1-alpha2/wallets/'' @ walletId
      \<and> method' request = ''GET''
      \<and> headers request = [(''X-API-KEY'', apiKey), (''Content-Type'', ''application/json'')]
      \<and> body request = None
      \<and> (fetch request = Never \<longrightarrow>
            fst (getCrossmintWallet fetch agent walletId apiKey) = Never)
      \<and> (\<forall>error. fetch request = Thrown error \<longrightarrow>
            fst (getCrossmintWallet fetch agent walletId apiKey) =
              (if nullish error then Thrown (TypeError_read error ''message'')
               else Value (JObj [(''status'', JStr ''error''),
                                 (''message'', own_prop error ''message''),
                                 (''code'', if truthy (own_prop error ''code'')
                                           then own_prop error ''code''
                                           else JStr ''WALLET_FETCH_ERROR'')])))
      \<and> (\<forall>response. fetch request = Value response \<longrightarrow>
            (json response = Never \<longrightarrow>
               fst (getCrossmintWallet fetch agent walletId apiKey) = Never)
          \<and> (\<forall>error. json response = Thrown error \<longrightarrow>
               fst (getCrossmintWallet fetch agent walletId apiKey) =
                 (if nullish error then Thrown (TypeError_read error ''message'')
                  else Value (JObj [(''status'', JStr ''error''),
                                    (''message'', own_prop error ''message''),
                                    (''code'', if truthy (own_prop error ''code'')
                                              then own_prop error ''code''
                                              else JStr ''WALLET_FETCH_ERROR'')])))
          \<and> (\<forall>errorData. json response = Value errorData \<and> \<not> ok response \<longrightarrow>
               fst (getCrossmintWallet fetch agent walletId apiKey) =
                 Value (JObj [(''status'', JStr ''error''),
                              (''message'',
                                 if nullish errorData
                                 then own_prop (TypeError_read errorData ''message'') ''message''
                                 else if truthy (own_prop errorData ''message'') then
                                   (case ToString (own_prop errorData ''message'') of
                                      Value s \<Rightarrow> JStr s
                                    | Thrown e \<Rightarrow> own_prop e ''message''
                                    | Never \<Rightarrow> JUndefined)
                                 else JStr (''HTTP error! status: '' @ decimal (status response))),
                              (''code'', JStr ''WALLET_FETCH_ERROR'')]))
          \<and> (\<forall>data. json response = Value data \<and> ok response \<longrightarrow>
               fst (getCrossmintWallet fetch agent walletId apiKey) =
                 (if nullish data
                  then Value (JObj [(''status'', JStr ''error''),
                                    (''message'', own_prop (TypeError_read data ''walletId'') ''message''),
                                    (''code'', JStr ''WALLET_FETCH_ERROR'')])
                  else Value (JObj [(''status'', JStr ''success''),
                                    (''walletId'', own_prop data ''walletId''),
                                    (''address'', own_prop data ''address'')]))))"
    apply (rule exI [of _ ?request])
    apply (intro conjI allI impI)
              apply (simp_all only: sent Request.simps)
    subgoal by (rule pending)
    subgoal for error by (simp only: rejected catch_error_cases)
    subgoal for response by (rule body_pending)
    subgoal for response error by (simp only: body_rejected catch_error_cases)
    subgoal for response errorData by (rule not_ok) blast+
    subgoal for response data by (rule is_ok) blast+
    done
next
  assume "fetch (hd (snd (getCrossmintWallet fetch agent walletId apiKey)))
       = fetch' (hd (snd (getCrossmintWallet fetch' agent' walletId' apiKey')))"
  then show "fst (getCrossmintWallet fetch agent walletId apiKey)
       = fst (getCrossmintWallet fetch' agent' walletId' apiKey')"
    by (simp only: get_by_outcome [of fetch agent walletId apiKey]
                   get_by_outcome [of fetch' agent' walletId' apiKey'])
qed

theorem get_performs_no_validation_witness:
  "getCrossmintWallet
     (fetch_fulfilled 200 (Value (JObj [(''walletId'', JStr ''w1''), (''address'', JStr ''addr1'')])))
     () [] ''not a key'' =
     (Value (JObj [(''status'', JStr ''success''),
                   (''walletId'', JStr ''w1''),
                   (''address'', JStr ''addr1'')]),
      [\<lparr>url = ''https://staging.crossmint.com/api/v1-alpha2/wallets/'',
        method' = ''GET'',
        headers = [(''X-API-KEY'', ''not a key''), (''Content-Type'', ''application/json'')],
        body = None\<rparr>])
   \<and> getCrossmintWallet (fetch_rejected (Error ''fetch failed'')) () [] ''not a key'' =
     (Value (JObj [(''status'', JStr ''error''),
                   (''message'', JStr ''fetch failed''),
                   (''code'', JStr ''WALLET_FETCH_ERROR'')]),
      [\<lparr>url = ''https://staging.crossmint.com/api/v1-alpha2/wallets/'',
        method' = ''GET'',
        headers = [(''X-API-KEY'', ''not a key''), (''Content-Type'', ''application/json'')],
        body = None\<rparr>])
   \<and> fetch_fulfilled 200 (Value (JObj [(''walletId'', JStr ''w1''), (''address'', JStr ''addr1'')]))
     (hd (snd (getCrossmintWallet
                 (fetch_fulfilled 200 (Value (JObj [(''walletId'', JStr ''w1''), (''address'', JStr ''addr1'')])))
                 () [] ''not a key'')))
     = fetch_fulfilled 200 (Value (JObj [(''walletId'', JStr ''w1''), (''address'', JStr ''addr1'')]))
     (hd (snd (getCrossmintWallet
                 (fetch_fulfilled 200 (Value (JObj [(''walletId'', JStr ''w1''), (''address'', JStr ''addr1'')])))
                 () ''w1'' ''sk_test'')))
   \<and> fst (getCrossmintWallet
            (fetch_fulfilled 200 (Value (JObj [(''walletId'', JStr ''w1''), (''address'', JStr ''addr1'')])))
            () [] ''not a key'')
     = fst (getCrossmintWallet
            (fetch_fulfilled 200 (Value (JObj [(''walletId'', JStr ''w1''), (''address'', JStr ''addr1'')])))
            () ''w1'' ''sk_test'')"
proof -
  let ?fetch = "fetch_fulfilled 200 (Value (JObj [(''walletId'', JStr ''w1''), (''address'', JStr ''addr1'')]))"
  let ?failing = "fetch_rejected (Error ''fetch failed'')"
  have same: "?fetch (hd (snd (getCrossmintWallet ?fetch () [] ''not a key'')))
              = ?fetch (hd (snd (getCrossmintWallet ?fetch () ''w1'' ''sk_test'')))"
    by (simp add: fetch_fulfilled_def)
  show ?thesis
    using same
          get_performs_no_validation [where fetch = ?fetch and agent = "()" and walletId = "[]"
                                        and apiKey = "''not a key''" and fetch' = ?fetch
                                        and agent' = "()" and walletId' = "''w1''"
                                        and apiKey' = "''sk_test''"]
          get_performs_no_validation [where fetch = ?failing and agent = "()" and walletId = "[]"
                                        and apiKey = "''not a key''" and fetch' = ?failing
                                        and agent' = "()" and walletId' = "[]"
                                        and apiKey' = "''not a key''"]
    by (auto simp add: prod_eq_iff get_sent fetch_fulfilled_def fetch_rejected_def ok_def
                       own_prop_Error not_nullish_Error)
qed

text \<open>
  Claim C10. \<^verbatim>\<open>getCrossmintWallet\<close> sends its request to the URL made of
  \<^verbatim>\<open>https://staging.crossmint.com/api/v1-alpha2/wallets/\<close> followed by the \<^verbatim>\<open>walletId\<close>
  as it is, with no encoding. For the empty \<^verbatim>\<open>walletId\<close> the URL is
  \<^verbatim>\<open>https://staging.crossmint.com/api/v1-alpha2/wallets/\<close>, and the characters \<^verbatim>\<open>/\<close>,
  \<^verbatim>\<open>?\<close> and \<^verbatim>\<open>#\<close> of a \<^verbatim>\<open>walletId\<close> stand in the URL unchanged.
\<close>

theorem get_request_url:
  "map url (snd (getCrossmintWallet fetch agent walletId apiKey)) =
     [''https://staging.crossmint.com/api/v1-alpha2/wallets/'' @ walletId]
 \<and> map url (snd (getCrossmintWallet fetch agent [] apiKey)) =
     [''https://staging.crossmint.com/api/v1-alpha2/wallets/'']
 \<and> map url (snd (getCrossmintWallet fetch agent ''w1/../w2?page=2#top'' apiKey)) =
     [''https://staging.crossmint.com/api/v1-alpha2/wallets/w1/../w2?page=2#top'']"
  by (simp add: get_sent)

section \<open>The two shapes of a result\<close>

text \<open>
  Claim C9. For every input and every behaviour of \<^verbatim>\<open>fetch\<close>, a value returned by any of
  the three functions has the status \<^verbatim>\<open>success\<close> or the status \<^verbatim>\<open>error\<close>; with
  \<^verbatim>\<open>success\<close> it has no \<^verbatim>\<open>message\<close> and no \<^verbatim>\<open>code\<close> property, and with \<^verbatim>\<open>error\<close>
  it has no \<^verbatim>\<open>walletId\<close>, no \<^verbatim>\<open>address\<close> and no \<^verbatim>\<open>wallets\<close> property.
\<close>

theorem results_well_shaped:
  "(\<forall>r. fst (createCrossmintWallet fetch agent linkedUser apiKey) = Value r \<longrightarrow> well_shaped r)
 \<and> (\<forall>r. fst (getCrossmintWallet fetch agent walletId apiKey) = Value r \<longrightarrow> well_shaped r)
 \<and> (\<forall>r. fst (listCrossmintWallets fetch agent apiKey) = Value r \<longrightarrow> well_shaped r)"
  unfolding fst_create fst_get fst_list
  by (blast intro: try_catch_Value create_try_Value get_try_Value list_try_Value)

theorem results_well_shaped_witness:
  "fst (createCrossmintWallet (fetch_rejected (Error ''fetch failed'')) () ''email:a@b.com'' ''sk_test'') =
     Value (JObj [(''status'', JStr ''error''),
                  (''message'', JStr ''fetch failed''),
                  (''code'', JStr ''WALLET_CREATION_ERROR'')])
   \<and> well_shaped (JObj [(''status'', JStr ''error''),
                        (''message'', JStr ''fetch failed''),
                        (''code'', JStr ''WALLET_CREATION_ERROR'')])
   \<and> fst (listCrossmintWallets (fetch_fulfilled 200 (Value (JObj [(''wallets'', JArr [])]))) () ''sk_test'') =
     Value (JObj [(''status'', JStr ''success''), (''wallets'', JArr [])])
   \<and> well_shaped (JObj [(''status'', JStr ''success''), (''wallets'', JArr [])])"
proof -
  have c: "fst (createCrossmintWallet (fetch_rejected (Error ''fetch failed'')) () ''email:a@b.com'' ''sk_test'') =
     Value (JObj [(''status'', JStr ''error''),
                  (''message'', JStr ''fetch failed''),
                  (''code'', JStr ''WALLET_CREATION_ERROR'')])"
    by (simp add: run)
  have l: "fst (listCrossmintWallets (fetch_fulfilled 200 (Value (JObj [(''wallets'', JArr [])]))) () ''sk_test'') =
     Value (JObj [(''status'', JStr ''success''), (''wallets'', JArr [])])"
    by (simp add: run)
  show ?thesis
    using c l
          results_well_shaped [of "fetch_rejected (Error ''fetch failed'')" "()" "''email:a@b.com''" "''sk_test''"]
          results_well_shaped [of "fetch_fulfilled 200 (Value (JObj [(''wallets'', JArr [])]))" "()" _ "''sk_test''"]
    by simp
qed

end
